theory Spec2Isabelle
  imports Main "HOL-Library.Word"
begin

section \<open>Python values: bytes, text and exceptions\<close>

text \<open>
  A Python \<^verbatim>\<open>bytes\<close> object is a list of 8-bit words. A Python \<^verbatim>\<open>str\<close> is a
  \<^typ>\<open>string\<close>: a list of characters, each read as the code point of the same number
  (code points below 256). Every exception the modelled code can raise is a
  constructor of \<open>exn\<close>; a function that may raise returns \<open>exn + 'a\<close>, with
  \<open>Inl\<close> for the raised exception.
\<close>

type_synonym byte = "8 word"
type_synonym bytes = "byte list"

datatype exn =
    UnsupportedParameter string
  | AttributeError string
  | KeyError string
  | InvalidMerkleProof
  | LookupError string
  | UnicodeEncodeError string
  | IndexError
  | OSError string
  | JSONDecodeError
  | OtherError string

text \<open>
  \<^verbatim>\<open>str.lower()\<close> on code points below 256: the letters A-Z and the Latin-1 capitals
  (U+00C0 to U+00DE without the multiplication sign U+00D7) move to their small forms,
  every other character stays.
\<close>

definition uppercase :: string where
  "uppercase = ''ABCDEFGHIJKLMNOPQRSTUVWXYZ'' @
     [CHR 0xC0, CHR 0xC1, CHR 0xC2, CHR 0xC3, CHR 0xC4, CHR 0xC5, CHR 0xC6, CHR 0xC7,
      CHR 0xC8, CHR 0xC9, CHR 0xCA, CHR 0xCB, CHR 0xCC, CHR 0xCD, CHR 0xCE, CHR 0xCF,
      CHR 0xD0, CHR 0xD1, CHR 0xD2, CHR 0xD3, CHR 0xD4, CHR 0xD5, CHR 0xD6,
      CHR 0xD8, CHR 0xD9, CHR 0xDA, CHR 0xDB, CHR 0xDC, CHR 0xDD, CHR 0xDE]"

definition lowercase :: string where
  "lowercase = ''abcdefghijklmnopqrstuvwxyz'' @
     [CHR 0xE0, CHR 0xE1, CHR 0xE2, CHR 0xE3, CHR 0xE4, CHR 0xE5, CHR 0xE6, CHR 0xE7,
      CHR 0xE8, CHR 0xE9, CHR 0xEA, CHR 0xEB, CHR 0xEC, CHR 0xED, CHR 0xEE, CHR 0xEF,
      CHR 0xF0, CHR 0xF1, CHR 0xF2, CHR 0xF3, CHR 0xF4, CHR 0xF5, CHR 0xF6,
      CHR 0xF8, CHR 0xF9, CHR 0xFA, CHR 0xFB, CHR 0xFC, CHR 0xFD, CHR 0xFE]"

definition lower_char :: "char \<Rightarrow> char" where
  "lower_char c = (case map_of (zip uppercase lowercase) c of None \<Rightarrow> c | Some d \<Rightarrow> d)"

definition lower :: "string \<Rightarrow> string" where
  "lower s = map lower_char s"

text \<open>\<^verbatim>\<open>s.replace(old, new)\<close> for one-character \<open>old\<close> and \<open>new\<close>.\<close>

definition replace :: "char \<Rightarrow> char \<Rightarrow> string \<Rightarrow> string" where
  "replace old new s = map (\<lambda>c. if c = old then new else c) s"

text \<open>
  \<^verbatim>\<open>text.encode(encoding)\<close> belongs to the Python runtime. The functions below take it
  as the parameter \<open>encode\<close>: the codec's name, the text, and the bytes or the exception
  (\<^verbatim>\<open>LookupError\<close> for an unknown codec, \<^verbatim>\<open>UnicodeEncodeError\<close> for a character the
  codec cannot encode).
\<close>

type_synonym codec = "string \<Rightarrow> string \<Rightarrow> exn + bytes"

section \<open>hashing.py\<close>

subsection \<open>The hashlib interface\<close>

text \<open>
  \<^verbatim>\<open>hashlib\<close> is the standard library. \<^verbatim>\<open>getattr(hashlib, name)\<close> either finds a
  constructor or raises \<^verbatim>\<open>AttributeError\<close>, so the module is a partial map from names to
  digest functions (from the message to the raw digest bytes). By hashlib's documented
  contract a hash object stands for the concatenation of everything fed to it:
  \<^verbatim>\<open>m.update(a); m.update(b)\<close> is \<^verbatim>\<open>m.update(a+b)\<close>, and \<^verbatim>\<open>hexdigest()\<close> is the digest of
  the data fed so far, as a string of two lowercase hexadecimal digits per byte.
\<close>

type_synonym hashlib = "string \<Rightarrow> (bytes \<Rightarrow> bytes) option"

record hasher =
  digest_fn :: "bytes \<Rightarrow> bytes"
  fed :: bytes

definition new_hasher :: "(bytes \<Rightarrow> bytes) \<Rightarrow> hasher" where
  "new_hasher f = \<lparr>digest_fn = f, fed = []\<rparr>"

definition update :: "hasher \<Rightarrow> bytes \<Rightarrow> hasher" where
  "update h chunk = h\<lparr>fed := fed h @ chunk\<rparr>"

definition hexdigit :: "nat \<Rightarrow> char" where
  "hexdigit n = ''0123456789abcdef'' ! (n mod 16)"

definition hex_byte :: "byte \<Rightarrow> string" where
  "hex_byte b = [hexdigit (unat b div 16), hexdigit (unat b mod 16)]"

definition hexlify :: "bytes \<Rightarrow> string" where
  "hexlify bs = concat (map hex_byte bs)"

definition hexdigest :: "hasher \<Rightarrow> string" where
  "hexdigest h = hexlify (digest_fn h (fed h))"

subsection \<open>HashEngine\<close>

record HashEngine =
  algorithm :: string
  encoding :: string
  security :: bool
  prefx00 :: bytes
  prefx01 :: bytes

definition normalized :: "string \<Rightarrow> string" where
  "normalized provided = replace CHR ''-'' CHR ''_'' (lower provided)"

text \<open>
  \<^verbatim>\<open>validate_parameters\<close>: the loop over the two (provided, supported) pairs, with the
  list \<open>validated\<close> it builds. \<^verbatim>\<open>ALGORITHMS\<close> and \<^verbatim>\<open>ENCODINGS\<close> come from
  \<^verbatim>\<open>pymerkle.constants\<close> and are parameters here.
\<close>

fun validate_loop :: "(string \<times> string list) list \<Rightarrow> string list \<Rightarrow> exn + string list" where
  "validate_loop [] validated = Inr validated"
| "validate_loop ((provided, supported) # rest) validated =
     (if normalized provided \<notin> set supported
      then Inl (UnsupportedParameter (provided @ '' is not supported''))
      else validate_loop rest (validated @ [normalized provided]))"

definition validate_parameters ::
  "string list \<Rightarrow> string list \<Rightarrow> string \<Rightarrow> string \<Rightarrow> exn + string list" where
  "validate_parameters ALGORITHMS ENCODINGS algorithm' encoding' =
     validate_loop [(algorithm', ALGORITHMS), (encoding', ENCODINGS)] []"

text \<open>
  \<^verbatim>\<open>HashEngine.__init__\<close>. The pair returned by \<^verbatim>\<open>validate_parameters\<close> is bound to the
  names \<^verbatim>\<open>algorith\<close> and \<^verbatim>\<open>encoding\<close> (line 27): the attribute \<^verbatim>\<open>algorithm\<close> keeps the
  argument as it was provided, the attribute \<^verbatim>\<open>encoding\<close> and the two prefixes use the
  normalized encoding.
\<close>

definition HashEngine_init ::
  "string list \<Rightarrow> string list \<Rightarrow> codec \<Rightarrow> string \<Rightarrow> string \<Rightarrow> bool \<Rightarrow> exn + HashEngine" where
  "HashEngine_init ALGORITHMS ENCODINGS encode algorithm' encoding' security' =
     (case validate_parameters ALGORITHMS ENCODINGS algorithm' encoding' of
        Inl e \<Rightarrow> Inl e
      | Inr validated \<Rightarrow>
          (case validated of
             [algorith, encoding''] \<Rightarrow>
               (case (if security' then encode encoding'' [CHR 0x00] else Inr []) of
                  Inl e \<Rightarrow> Inl e
                | Inr p00 \<Rightarrow>
                    (case (if security' then encode encoding'' [CHR 0x01] else Inr []) of
                       Inl e \<Rightarrow> Inl e
                     | Inr p01 \<Rightarrow>
                         Inr \<lparr>algorithm = algorithm', encoding = encoding'',
                              security = security', prefx00 = p00, prefx01 = p01\<rparr>))
           | _ \<Rightarrow> Inl (OtherError ''ValueError'')))"

text \<open>Python's \<^verbatim>\<open>xs[a:b]\<close> for indices \<open>0 \<le> a\<close> and \<open>0 \<le> b\<close>.\<close>

definition py_slice :: "'a list \<Rightarrow> nat \<Rightarrow> nat \<Rightarrow> 'a list" where
  "py_slice xs a b = take (b - a) (drop a xs)"

definition chunksize :: nat where
  "chunksize = 1024"

text \<open>
  The \<^verbatim>\<open>while chunk:\<close> loop of \<^verbatim>\<open>consume\<close>, on the loop's variables: the hasher, the
  offset and the current chunk.
\<close>

function consume_loop :: "hasher \<Rightarrow> bytes \<Rightarrow> nat \<Rightarrow> bytes \<Rightarrow> hasher" where
  "consume_loop h buffer offset chunk =
     (if chunk \<noteq> []
      then consume_loop (update h chunk) buffer (offset + chunksize)
             (py_slice buffer (offset + chunksize) (offset + chunksize + chunksize))
      else h)"
  by pat_completeness auto
termination
proof (relation "measure (\<lambda>(h, buffer, offset, chunk).
                   if chunk = [] then 0 else Suc (length buffer - offset))")
  show "wf (measure (\<lambda>(h, buffer, offset, chunk).
                   if chunk = [] then 0 else Suc (length buffer - offset)))"
    by simp
next
  fix h :: hasher and buffer :: bytes and offset :: nat and chunk :: bytes
  assume "chunk \<noteq> []"
  then show "((update h chunk, buffer, offset + chunksize,
               py_slice buffer (offset + chunksize) (offset + chunksize + chunksize)),
              (h, buffer, offset, chunk))
             \<in> measure (\<lambda>(h, buffer, offset, chunk).
                   if chunk = [] then 0 else Suc (length buffer - offset))"
    by (auto simp: py_slice_def chunksize_def)
qed

declare consume_loop.simps [simp del]

definition consume :: "hashlib \<Rightarrow> codec \<Rightarrow> HashEngine \<Rightarrow> bytes \<Rightarrow> exn + bytes" where
  "consume hashlib encode self buffer =
     (case hashlib (algorithm self) of
        None \<Rightarrow> Inl (AttributeError (algorithm self))
      | Some f \<Rightarrow>
          (let hasher = consume_loop (new_hasher f) buffer 0 (py_slice buffer 0 chunksize);
               checksum = hexdigest hasher
           in encode (encoding self) checksum))"

text \<open>The argument of \<^verbatim>\<open>hash_entry\<close> is \<^verbatim>\<open>bytes\<close> or \<^verbatim>\<open>str\<close>.\<close>

datatype data = Bytes bytes | Text string

definition hash_entry :: "hashlib \<Rightarrow> codec \<Rightarrow> HashEngine \<Rightarrow> data \<Rightarrow> exn + bytes" where
  "hash_entry hashlib encode self d =
     (case (case d of Bytes b \<Rightarrow> Inr b | Text t \<Rightarrow> encode (encoding self) t) of
        Inl e \<Rightarrow> Inl e
      | Inr data' \<Rightarrow> consume hashlib encode self (prefx00 self @ data'))"

definition hash_pair :: "hashlib \<Rightarrow> codec \<Rightarrow> HashEngine \<Rightarrow> bytes \<Rightarrow> bytes \<Rightarrow> exn + bytes" where
  "hash_pair hashlib encode self left right =
     consume hashlib encode self (prefx01 self @ left @ prefx01 self @ right)"

section \<open>validations.py\<close>

subsection \<open>Dictionaries and the proof object\<close>

text \<open>
  The values the dictionaries of this module hold, and a dictionary with string keys as
  a map. \<^verbatim>\<open>d[key]\<close> on a missing key raises \<^verbatim>\<open>KeyError\<close>.
\<close>

datatype pyval = VNone | VBool bool | VInt int | VStr string

type_synonym dict = "string \<rightharpoonup> pyval"

text \<open>
  The proof is an object of the tree component. The module reads
  \<^verbatim>\<open>header['generation']\<close>, \<^verbatim>\<open>header['uuid']\<close>, \<^verbatim>\<open>header['provider']\<close>,
  \<^verbatim>\<open>body['proof_path']\<close>, \<^verbatim>\<open>body['proof_index']\<close> and the result of
  \<^verbatim>\<open>get_validation_params()\<close>, and writes \<^verbatim>\<open>header['status']\<close>. A signed hash is a pair
  of a sign and a digest.
\<close>

type_synonym signed_hash = "int \<times> bytes"

record Proof_header =
  generation :: bool
  status :: "bool option"
  uuid :: string
  provider :: string

record Proof_body =
  proof_path :: "signed_hash list"
  proof_index :: int

record Proof =
  header :: Proof_header
  body :: Proof_body
  validation_params :: dict

subsection \<open>Validator\<close>

text \<open>
  \<^verbatim>\<open>Validator\<close> extends \<^verbatim>\<open>HashMachine\<close>, which is not among the sources. Its constructor
  and its method \<^verbatim>\<open>multi_hash\<close> are parameters: \<open>machine_init\<close> takes the four
  configuration values and returns the configured machine (or raises), \<open>multi_hash\<close>
  folds a path of signed hashes from a start index into one digest (or raises).
\<close>

type_synonym 'm machine_init = "pyval \<Rightarrow> pyval \<Rightarrow> pyval \<Rightarrow> pyval \<Rightarrow> exn + 'm"
type_synonym 'm multi_hash = "'m \<Rightarrow> signed_hash list \<Rightarrow> int \<Rightarrow> exn + bytes"

text \<open>
  The \<^verbatim>\<open>KeyError\<close> of \<^verbatim>\<open>Validator.__init__\<close>: the message ends with the missing key as
  \<^verbatim>\<open>str\<close> of a \<^verbatim>\<open>KeyError\<close> prints it, between single quotes.
\<close>

definition missing_parameter :: "string \<Rightarrow> exn" where
  "missing_parameter key =
     KeyError (''Hash-machine could not be configured: missing parameter: ''
               @ [CHR 0x27] @ key @ [CHR 0x27])"

definition Validator_init :: "'m machine_init \<Rightarrow> dict \<Rightarrow> exn + 'm" where
  "Validator_init machine_init config =
     (case config ''hash_type'' of
        None \<Rightarrow> Inl (missing_parameter ''hash_type'')
      | Some hash_type \<Rightarrow>
     (case config ''encoding'' of
        None \<Rightarrow> Inl (missing_parameter ''encoding'')
      | Some encoding' \<Rightarrow>
     (case config ''raw_bytes'' of
        None \<Rightarrow> Inl (missing_parameter ''raw_bytes'')
      | Some raw_bytes \<Rightarrow>
     (case config ''security'' of
        None \<Rightarrow> Inl (missing_parameter ''security'')
      | Some security' \<Rightarrow> machine_init hash_type encoding' raw_bytes security'))))"

definition run :: "'m multi_hash \<Rightarrow> 'm \<Rightarrow> bytes \<Rightarrow> Proof \<Rightarrow> exn + unit" where
  "run multi_hash self target proof =
     (if \<not> generation (header proof) then Inl InvalidMerkleProof
      else
        (let signed_hashes = proof_path (body proof);
             start = proof_index (body proof)
         in case multi_hash self signed_hashes start of
              Inl e \<Rightarrow> Inl e
            | Inr root \<Rightarrow> if target \<noteq> root then Inl InvalidMerkleProof else Inr ()))"

subsection \<open>validateProof\<close>

text \<open>
  The function returns the boolean and leaves it in \<^verbatim>\<open>proof.header['status']\<close>: the
  result is the pair of the boolean and the proof as the call leaves it.
\<close>

definition set_status :: "Proof \<Rightarrow> bool \<Rightarrow> Proof" where
  "set_status proof result = proof\<lparr>header := (header proof)\<lparr>status := Some result\<rparr>\<rparr>"

definition validateProof ::
  "'m machine_init \<Rightarrow> 'm multi_hash \<Rightarrow> bytes \<Rightarrow> Proof \<Rightarrow> exn + (bool \<times> Proof)" where
  "validateProof machine_init multi_hash target proof =
     (case Validator_init machine_init (validation_params proof) of
        Inl e \<Rightarrow> Inl e
      | Inr validator \<Rightarrow>
          (case run multi_hash validator target proof of
             Inl e \<Rightarrow>
               (if e = InvalidMerkleProof then Inr (False, set_status proof False)
                else Inl e)
           | Inr _ \<Rightarrow> Inr (True, set_status proof True)))"

subsection \<open>Receipt\<close>

text \<open>
  What the module takes from its surroundings: \<^verbatim>\<open>uuid.uuid1()\<close> (the \<open>n\<close>-th call
  returns \<open>uuid1 n\<close>, already as a string), \<^verbatim>\<open>int(time())\<close>, \<^verbatim>\<open>ctime()\<close>, and the file
  system, where \<^verbatim>\<open>open(path, 'w')\<close> either raises \<^verbatim>\<open>OSError\<close> or gives the file that the
  write replaces.
\<close>

record world =
  uuid1 :: "nat \<Rightarrow> string"
  uuids_minted :: nat
  time_now :: int
  ctime_now :: string
  files :: "string \<rightharpoonup> string"
  open_fails :: "string \<Rightarrow> bool"

record Receipt =
  receipt_header :: dict
  receipt_body :: dict

text \<open>The arguments of \<^verbatim>\<open>Receipt(*args, **kwargs)\<close> that the constructor reads.\<close>

record Receipt_kwargs =
  from_dict :: "(string \<rightharpoonup> dict) option"
  from_json :: "string option"
  kw_proof_uuid :: "pyval option"
  kw_proof_provider :: "pyval option"
  kw_result :: "pyval option"

definition no_kwargs :: Receipt_kwargs where
  "no_kwargs = \<lparr>from_dict = None, from_json = None, kw_proof_uuid = None,
                 kw_proof_provider = None, kw_result = None\<rparr>"

text \<open>
  \<^verbatim>\<open>json.dumps\<close> (with its \<^verbatim>\<open>sort_keys\<close> and \<^verbatim>\<open>indent\<close> arguments) and \<^verbatim>\<open>json.loads\<close>
  are the standard library and are parameters.
\<close>

type_synonym json_dumps = "bool \<Rightarrow> nat \<Rightarrow> (string \<rightharpoonup> dict) \<Rightarrow> string"
type_synonym json_loads = "string \<Rightarrow> exn + (string \<rightharpoonup> dict)"

definition fresh_header :: "world \<Rightarrow> dict \<times> world" where
  "fresh_header w =
     ([''uuid'' \<mapsto> VStr (uuid1 w (uuids_minted w)),
       ''timestamp'' \<mapsto> VInt (time_now w),
       ''validation_moment'' \<mapsto> VStr (ctime_now w)],
      w\<lparr>uuids_minted := Suc (uuids_minted w)\<rparr>)"

definition getitem :: "('k \<rightharpoonup> 'v) \<Rightarrow> 'k \<Rightarrow> string \<Rightarrow> exn + 'v" where
  "getitem d key name = (case d key of None \<Rightarrow> Inl (KeyError name) | Some v \<Rightarrow> Inr v)"

definition Receipt_init ::
  "json_loads \<Rightarrow> world \<Rightarrow> pyval list \<Rightarrow> Receipt_kwargs \<Rightarrow> exn + (Receipt \<times> world)" where
  "Receipt_init json_loads w args kwargs =
     (if args \<noteq> [] then
        (case fresh_header w of (h, w') \<Rightarrow>
           (case args of
              a0 # a1 # a2 # _ \<Rightarrow>
                Inr (\<lparr>receipt_header = h,
                      receipt_body = [''proof_uuid'' \<mapsto> a0, ''proof_provider'' \<mapsto> a1,
                                      ''result'' \<mapsto> a2]\<rparr>, w')
            | _ \<Rightarrow> Inl IndexError))
      else if (case from_dict kwargs of None \<Rightarrow> False | Some d \<Rightarrow> d \<noteq> Map.empty) then
        (case getitem (the (from_dict kwargs)) ''header'' ''header'' of
           Inl e \<Rightarrow> Inl e
         | Inr h \<Rightarrow>
             (case getitem (the (from_dict kwargs)) ''body'' ''body'' of
                Inl e \<Rightarrow> Inl e
              | Inr b \<Rightarrow> Inr (\<lparr>receipt_header = h, receipt_body = b\<rparr>, w)))
      else if (case from_json kwargs of None \<Rightarrow> False | Some s \<Rightarrow> s \<noteq> []) then
        (case json_loads (the (from_json kwargs)) of
           Inl e \<Rightarrow> Inl e
         | Inr d \<Rightarrow>
             (case getitem d ''header'' ''header'' of
                Inl e \<Rightarrow> Inl e
              | Inr h \<Rightarrow>
                  (case getitem d ''body'' ''body'' of
                     Inl e \<Rightarrow> Inl e
                   | Inr b \<Rightarrow> Inr (\<lparr>receipt_header = h, receipt_body = b\<rparr>, w))))
      else
        (case fresh_header w of (h, w') \<Rightarrow>
           (case kw_proof_uuid kwargs of
              None \<Rightarrow> Inl (KeyError ''proof_uuid'')
            | Some pu \<Rightarrow>
           (case kw_proof_provider kwargs of
              None \<Rightarrow> Inl (KeyError ''proof_provider'')
            | Some pp \<Rightarrow>
           (case kw_result kwargs of
              None \<Rightarrow> Inl (KeyError ''result'')
            | Some res \<Rightarrow>
                Inr (\<lparr>receipt_header = h,
                      receipt_body = [''proof_uuid'' \<mapsto> pu, ''proof_provider'' \<mapsto> pp,
                                      ''result'' \<mapsto> res]\<rparr>, w'))))))"

text \<open>
  Modelled from the spec: \<^verbatim>\<open>ReceiptSerializer\<close> (\<^verbatim>\<open>pymerkle.serializers\<close>), which
  \<^verbatim>\<open>serialize\<close> and \<^verbatim>\<open>toJsonString\<close> call, is not among the sources. The spec gives the
  serialized receipt the schema
  \<^verbatim>\<open>{header:{uuid,timestamp,validation_moment}, body:{proof_uuid,proof_provider,result}}\<close>:
  the entries of the header and of the body under these keys.
\<close>

definition header_keys :: "string set" where
  "header_keys = {''uuid'', ''timestamp'', ''validation_moment''}"

definition body_keys :: "string set" where
  "body_keys = {''proof_uuid'', ''proof_provider'', ''result''}"

definition serialize :: "Receipt \<Rightarrow> (string \<rightharpoonup> dict)" where
  "serialize self =
     [''header'' \<mapsto> receipt_header self |` header_keys,
      ''body'' \<mapsto> receipt_body self |` body_keys]"


subsection \<open>validationReceipt\<close>

text \<open>\<^verbatim>\<open>'%s' % v\<close>: the \<^verbatim>\<open>str\<close> of a value.\<close>

definition digit_char :: "nat \<Rightarrow> char" where
  "digit_char n = ''0123456789'' ! (n mod 10)"

fun digits :: "nat \<Rightarrow> string" where
  "digits n = (if n < 10 then [digit_char n] else digits (n div 10) @ [digit_char (n mod 10)])"

definition py_str :: "pyval \<Rightarrow> string" where
  "py_str v =
     (case v of
        VNone \<Rightarrow> ''None''
      | VBool b \<Rightarrow> (if b then ''True'' else ''False'')
      | VInt i \<Rightarrow> (if i < 0 then ''-'' @ digits (nat (- i)) else digits (nat i))
      | VStr s \<Rightarrow> s)"

text \<open>\<^verbatim>\<open>os.path.join(a, b)\<close> of \<^verbatim>\<open>posixpath\<close>, for two components.\<close>

definition path_join :: "string \<Rightarrow> string \<Rightarrow> string" where
  "path_join a b =
     (if b \<noteq> [] \<and> hd b = CHR ''/'' then b
      else if a = [] \<or> last a = CHR ''/'' then a @ b
      else a @ ''/'' @ b)"

text \<open>
  The result is the receipt, with the proof and the surroundings as the call leaves
  them. \<open>dirpath\<close> is \<open>None\<close> when the argument is left out.
\<close>

definition validationReceipt ::
  "'m machine_init \<Rightarrow> 'm multi_hash \<Rightarrow> json_dumps \<Rightarrow> json_loads \<Rightarrow> world \<Rightarrow>
   bytes \<Rightarrow> Proof \<Rightarrow> string option \<Rightarrow> exn + (Receipt \<times> Proof \<times> world)" where
  "validationReceipt machine_init multi_hash json_dumps json_loads w target proof dirpath =
     (case validateProof machine_init multi_hash target proof of
        Inl e \<Rightarrow> Inl e
      | Inr (result, proof') \<Rightarrow>
          (case Receipt_init json_loads w []
                  (no_kwargs\<lparr>kw_proof_uuid := Some (VStr (uuid (header proof'))),
                             kw_proof_provider := Some (VStr (provider (header proof'))),
                             kw_result := Some (VBool result)\<rparr>) of
             Inl e \<Rightarrow> Inl e
           | Inr (receipt, w') \<Rightarrow>
               (if (case dirpath of None \<Rightarrow> False | Some d \<Rightarrow> d \<noteq> []) then
                  (case getitem (receipt_header receipt) ''uuid'' ''uuid'' of
                     Inl e \<Rightarrow> Inl e
                   | Inr u \<Rightarrow>
                       (let path = path_join (the dirpath) (py_str u @ ''.json'') in
                        if open_fails w' path then Inl (OSError path)
                        else Inr (receipt, proof',
                                  w'\<lparr>files := (files w')(path \<mapsto>
                                        json_dumps True 4 (serialize receipt))\<rparr>)))
                else Inr (receipt, proof', w'))))"

section \<open>Stand-ins for the concrete examples\<close>

text \<open>
  Every theorem below takes the runtime and the missing parts of the package as
  parameters. The concrete examples need values for them. \<open>python_encode\<close> is
  \<^verbatim>\<open>str.encode\<close> for four codecs of CPython on code points below 256 (\<^verbatim>\<open>utf_16\<close> as on a
  little-endian host: the byte-order mark, then two bytes per character).
\<close>

definition utf8_char :: "char \<Rightarrow> bytes" where
  "utf8_char c =
     (let n = (of_char c :: nat) in
      if n < 128 then [of_nat n] else [of_nat (192 + n div 64), of_nat (128 + n mod 64)])"

definition python_encode :: codec where
  "python_encode name t =
     (if name = ''utf_8'' then Inr (concat (map utf8_char t))
      else if name = ''latin_1'' then Inr (map of_char t)
      else if name = ''ascii'' then
        (if list_all (\<lambda>c. (of_char c :: nat) < 128) t then Inr (map of_char t)
         else Inl (UnicodeEncodeError name))
      else if name = ''utf_16'' then
        Inr ([0xFF, 0xFE] @ concat (map (\<lambda>c. [of_char c, 0]) t))
      else Inl (LookupError name))"

text \<open>
  A hashlib with one constructor, under the name \<^verbatim>\<open>sha256\<close>. The examples only need
  some function from messages to digests; this one returns two bytes, the message's
  length and the sum of its bytes (both modulo 256), and stands for no real algorithm.
\<close>

definition example_digest :: "bytes \<Rightarrow> bytes" where
  "example_digest m = [of_nat (length m), sum_list m]"

definition example_hashlib :: hashlib where
  "example_hashlib name = (if name = ''sha256'' then Some example_digest else None)"

definition example_engine :: HashEngine where
  "example_engine = \<lparr>algorithm = ''sha256'', encoding = ''utf_8'', security = True,
                      prefx00 = [0x00], prefx01 = [0x01]\<rparr>"

text \<open>
  Values for \<^verbatim>\<open>ALGORITHMS\<close> and \<^verbatim>\<open>ENCODINGS\<close>: the constructor's defaults
  (\<^verbatim>\<open>sha256\<close>, \<^verbatim>\<open>utf-8\<close>) show that the normalized names \<^verbatim>\<open>sha256\<close> and \<^verbatim>\<open>utf_8\<close>
  are supported; \<^verbatim>\<open>utf_16\<close> stands for an encoding that is not a one-byte superset of
  ASCII.
\<close>

definition example_ALGORITHMS :: "string list" where
  "example_ALGORITHMS = [''sha256'']"

definition example_ENCODINGS :: "string list" where
  "example_ENCODINGS = [''utf_8'', ''utf_16'']"

text \<open>
  The engines that construction returns for \<^verbatim>\<open>('sha256', 'utf-8', False)\<close>,
  \<^verbatim>\<open>('sha256', 'utf-16', True)\<close> and \<^verbatim>\<open>('SHA256', 'utf-8', True)\<close>;
  \<open>example_engine\<close> above is the one for \<^verbatim>\<open>('sha256', 'utf-8', True)\<close>.
\<close>

definition example_plain_engine :: HashEngine where
  "example_plain_engine = \<lparr>algorithm = ''sha256'', encoding = ''utf_8'', security = False,
                            prefx00 = [], prefx01 = []\<rparr>"

definition example_utf16_engine :: HashEngine where
  "example_utf16_engine = \<lparr>algorithm = ''sha256'', encoding = ''utf_16'', security = True,
                            prefx00 = [0xFF, 0xFE, 0x00, 0x00],
                            prefx01 = [0xFF, 0xFE, 0x01, 0x00]\<rparr>"

definition example_raw_engine :: HashEngine where
  "example_raw_engine = \<lparr>algorithm = ''SHA256'', encoding = ''utf_8'', security = True,
                          prefx00 = [0x00], prefx01 = [0x01]\<rparr>"

text \<open>
  A hash machine whose constructor accepts every configuration and whose
  \<^verbatim>\<open>multi_hash\<close> returns the digest at the start index of the path
  (\<^verbatim>\<open>IndexError\<close> outside it).
\<close>

definition example_machine_init :: "unit machine_init" where
  "example_machine_init hash_type encoding' raw_bytes security' = Inr ()"

definition example_multi_hash :: "unit multi_hash" where
  "example_multi_hash self signed_hashes start =
     (if 0 \<le> start \<and> nat start < length signed_hashes
      then Inr (snd (signed_hashes ! nat start)) else Inl IndexError)"

text \<open>
  Two configurations: the keys the constructor reads, and the same with the key
  \<^verbatim>\<open>algorithm\<close> in the place of \<^verbatim>\<open>hash_type\<close>. A proof, the same proof with a failed
  generation, and the same proof with an empty path.
\<close>

definition example_config :: dict where
  "example_config = [''hash_type'' \<mapsto> VStr ''sha256'', ''encoding'' \<mapsto> VStr ''utf-8'',
                     ''raw_bytes'' \<mapsto> VBool True, ''security'' \<mapsto> VBool True]"

definition example_config_algorithm :: dict where
  "example_config_algorithm =
     [''algorithm'' \<mapsto> VStr ''sha256'', ''encoding'' \<mapsto> VStr ''utf-8'',
      ''raw_bytes'' \<mapsto> VBool True, ''security'' \<mapsto> VBool True]"

definition example_proof :: Proof where
  "example_proof =
     \<lparr>header = \<lparr>generation = True, status = None, uuid = ''proof-1'', provider = ''tree-1''\<rparr>,
      body = \<lparr>proof_path = [(1, [0x61]), (- 1, [0x62])], proof_index = 0\<rparr>,
      validation_params = example_config\<rparr>"

definition example_failed_proof :: Proof where
  "example_failed_proof = example_proof\<lparr>header := (header example_proof)\<lparr>generation := False\<rparr>\<rparr>"

definition example_empty_proof :: Proof where
  "example_empty_proof = example_proof\<lparr>body := \<lparr>proof_path = [], proof_index = 0\<rparr>\<rparr>"

text \<open>
  Surroundings with an empty file system in which every \<^verbatim>\<open>open\<close> succeeds, the same
  with every \<^verbatim>\<open>open\<close> failing, and the receipt that a first validation of
  \<open>example_proof\<close> with result \<open>True\<close> creates there.
\<close>

definition example_world :: world where
  "example_world =
     \<lparr>uuid1 = (\<lambda>n. ''receipt-'' @ digits n), uuids_minted = 0, time_now = 1600000000,
      ctime_now = ''Sun Sep 13 12:26:40 2020'', files = Map.empty,
      open_fails = (\<lambda>path. False)\<rparr>"

definition example_closed_world :: world where
  "example_closed_world = example_world\<lparr>open_fails := (\<lambda>path. True)\<rparr>"

definition example_receipt :: Receipt where
  "example_receipt =
     \<lparr>receipt_header = [''uuid'' \<mapsto> VStr ''receipt-0'', ''timestamp'' \<mapsto> VInt 1600000000,
                        ''validation_moment'' \<mapsto> VStr ''Sun Sep 13 12:26:40 2020''],
      receipt_body = [''proof_uuid'' \<mapsto> VStr ''proof-1'', ''proof_provider'' \<mapsto> VStr ''tree-1'',
                      ''result'' \<mapsto> VBool True]\<rparr>"

text \<open>
  A json library that knows one document: \<open>example_json_dumps\<close> gives every mapping the
  text \<open>example_json_text\<close>, and \<open>example_json_loads\<close> reads that text, and only that
  text, as the serialization of \<open>example_receipt\<close>.
\<close>

definition example_json_text :: string where
  "example_json_text = ''{body: {proof_provider: tree-1, proof_uuid: proof-1, result: true}, ''
     @ ''header: {timestamp: 1600000000, uuid: receipt-0, ''
     @ ''validation_moment: Sun Sep 13 12:26:40 2020}}''"

definition example_json_dumps :: json_dumps where
  "example_json_dumps sort_keys indent d = example_json_text"

definition example_json_loads :: json_loads where
  "example_json_loads s =
     (if s = example_json_text then Inr (serialize example_receipt) else Inl JSONDecodeError)"

section \<open>Properties of hashing.py\<close>

subsection \<open>The chunk loop\<close>

lemma consume_loop_fed:
  "fed (consume_loop h buffer offset (py_slice buffer offset (offset + chunksize)))
     = fed h @ drop offset buffer"
proof (induction "length buffer - offset" arbitrary: h offset rule: less_induct)
  case less
  show ?case
  proof (cases "py_slice buffer offset (offset + chunksize) = []")
    case True
    then have "drop offset buffer = []"
      by (auto simp: py_slice_def chunksize_def)
    with True show ?thesis
      by (subst consume_loop.simps) simp
  next
    case False
    then have lt: "offset < length buffer"
      by (auto simp: py_slice_def)
    have smaller: "length buffer - (offset + chunksize) < length buffer - offset"
      using lt by (simp add: chunksize_def)
    have step: "fed (consume_loop (update h (py_slice buffer offset (offset + chunksize))) buffer
                      (offset + chunksize)
                      (py_slice buffer (offset + chunksize) (offset + chunksize + chunksize)))
                = fed (update h (py_slice buffer offset (offset + chunksize)))
                    @ drop (offset + chunksize) buffer"
      by (rule less.hyps [OF smaller])
    have split: "py_slice buffer offset (offset + chunksize) @ drop (offset + chunksize) buffer
                 = drop offset buffer"
      by (simp add: py_slice_def add.commute flip: drop_drop)
    show ?thesis
      using False step split
      by (subst consume_loop.simps) (simp add: update_def)
  qed
qed

lemma consume_loop_digest_fn:
  "digest_fn (consume_loop h buffer offset chunk) = digest_fn h"
  by (induction h buffer offset chunk rule: consume_loop.induct)
     (subst consume_loop.simps, simp add: update_def)

lemma consume_Some:
  assumes "hashlib (algorithm self) = Some f"
  shows "consume hashlib encode self buffer = encode (encoding self) (hexlify (f buffer))"
proof -
  have "fed (consume_loop (new_hasher f) buffer 0 (py_slice buffer 0 chunksize)) = buffer"
    using consume_loop_fed [of "new_hasher f" buffer 0] by (simp add: new_hasher_def)
  moreover have "digest_fn (consume_loop (new_hasher f) buffer 0 (py_slice buffer 0 chunksize)) = f"
    by (simp add: consume_loop_digest_fn new_hasher_def)
  ultimately show ?thesis
    using assms by (simp add: consume_def hexdigest_def)
qed

lemma consume_None:
  "hashlib (algorithm self) = None \<Longrightarrow>
   consume hashlib encode self buffer = Inl (AttributeError (algorithm self))"
  by (simp add: consume_def)

text \<open>The digest string: two lowercase hexadecimal digits for every byte of the digest.\<close>

lemma hexdigit_lowercase: "hexdigit n \<in> set ''0123456789abcdef''"
proof -
  have "n mod 16 < length ''0123456789abcdef''"
    by simp
  then show ?thesis
    unfolding hexdigit_def by (rule nth_mem)
qed

lemma hexlify_lowercase:
  "set (hexlify bs) \<subseteq> set ''0123456789abcdef''" and "length (hexlify bs) = 2 * length bs"
proof -
  show "set (hexlify bs) \<subseteq> set ''0123456789abcdef''"
    using hexdigit_lowercase by (induction bs) (auto simp: hexlify_def hex_byte_def)
  show "length (hexlify bs) = 2 * length bs"
    by (induction bs) (simp_all add: hexlify_def hex_byte_def)
qed

subsection \<open>Construction\<close>

lemma validate_parameters_unfold:
  "validate_parameters ALGORITHMS ENCODINGS a enc =
     (if normalized a \<notin> set ALGORITHMS
      then Inl (UnsupportedParameter (a @ '' is not supported''))
      else if normalized enc \<notin> set ENCODINGS
      then Inl (UnsupportedParameter (enc @ '' is not supported''))
      else Inr [normalized a, normalized enc])"
  by (simp add: validate_parameters_def)

lemma HashEngine_init_unfold:
  "HashEngine_init ALGORITHMS ENCODINGS encode a enc sec =
     (if normalized a \<notin> set ALGORITHMS
      then Inl (UnsupportedParameter (a @ '' is not supported''))
      else if normalized enc \<notin> set ENCODINGS
      then Inl (UnsupportedParameter (enc @ '' is not supported''))
      else if \<not> sec
      then Inr \<lparr>algorithm = a, encoding = normalized enc, security = False,
                prefx00 = [], prefx01 = []\<rparr>
      else (case encode (normalized enc) [CHR 0x00] of
              Inl e \<Rightarrow> Inl e
            | Inr p00 \<Rightarrow>
                (case encode (normalized enc) [CHR 0x01] of
                   Inl e \<Rightarrow> Inl e
                 | Inr p01 \<Rightarrow>
                     Inr \<lparr>algorithm = a, encoding = normalized enc, security = True,
                          prefx00 = p00, prefx01 = p01\<rparr>)))"
  by (cases sec) (simp_all add: HashEngine_init_def validate_parameters_unfold)

lemma HashEngine_init_Inr:
  assumes "HashEngine_init ALGORITHMS ENCODINGS encode a enc sec = Inr self"
  shows "normalized a \<in> set ALGORITHMS" and "normalized enc \<in> set ENCODINGS"
    and "algorithm self = a" and "encoding self = normalized enc" and "security self = sec"
    and "sec \<Longrightarrow> encode (normalized enc) [CHR 0x00] = Inr (prefx00 self)"
    and "sec \<Longrightarrow> encode (normalized enc) [CHR 0x01] = Inr (prefx01 self)"
    and "\<not> sec \<Longrightarrow> prefx00 self = []" and "\<not> sec \<Longrightarrow> prefx01 self = []"
  using assms
  by (auto simp: HashEngine_init_unfold split: if_splits sum.splits)

subsection \<open>The concrete examples\<close>

lemma normalized_examples:
  "normalized ''sha256'' = ''sha256''" "normalized ''SHA256'' = ''sha256''"
  "normalized ''utf-8'' = ''utf_8''" "normalized ''utf-16'' = ''utf_16''"
  "normalized ''UTF-8'' = ''utf_8''" "normalized ''md5'' = ''md5''"
  "normalized ''latin-1'' = ''latin_1''"
  by (simp_all add: normalized_def lower_def replace_def lower_char_def uppercase_def lowercase_def)

lemma example_engine_init:
  "HashEngine_init example_ALGORITHMS example_ENCODINGS python_encode ''sha256'' ''utf-8'' True
     = Inr example_engine"
  by (simp add: HashEngine_init_unfold normalized_examples example_ALGORITHMS_def
        example_ENCODINGS_def python_encode_def utf8_char_def example_engine_def)

lemma example_plain_engine_init:
  "HashEngine_init example_ALGORITHMS example_ENCODINGS python_encode ''sha256'' ''utf-8'' False
     = Inr example_plain_engine"
  by (simp add: HashEngine_init_unfold normalized_examples example_ALGORITHMS_def
        example_ENCODINGS_def example_plain_engine_def)

lemma example_utf16_engine_init:
  "HashEngine_init example_ALGORITHMS example_ENCODINGS python_encode ''sha256'' ''utf-16'' True
     = Inr example_utf16_engine"
  by (simp add: HashEngine_init_unfold normalized_examples example_ALGORITHMS_def
        example_ENCODINGS_def python_encode_def example_utf16_engine_def)

lemma example_raw_engine_init:
  "HashEngine_init example_ALGORITHMS example_ENCODINGS python_encode ''SHA256'' ''utf-8'' True
     = Inr example_raw_engine"
  by (simp add: HashEngine_init_unfold normalized_examples example_ALGORITHMS_def
        example_ENCODINGS_def python_encode_def utf8_char_def example_raw_engine_def)

lemmas example_eval =
  example_hashlib_def example_digest_def hexlify_def hex_byte_def
  hexdigit_def python_encode_def utf8_char_def sum_list_replicate

lemma example_hashlib_sha256:
  "example_hashlib (algorithm example_engine) = Some example_digest"
  "example_hashlib (algorithm example_plain_engine) = Some example_digest"
  "example_hashlib (algorithm example_utf16_engine) = Some example_digest"
  "example_hashlib ''sha256'' = Some example_digest"
  "example_hashlib ''SHA256'' = None"
  by (simp_all add: example_hashlib_def example_engine_def example_plain_engine_def
        example_utf16_engine_def)

lemma example_fields:
  "encoding example_engine = ''utf_8''" "prefx00 example_engine = [0x00]"
  "prefx01 example_engine = [0x01]"
  "encoding example_plain_engine = ''utf_8''" "prefx00 example_plain_engine = []"
  "prefx01 example_plain_engine = []"
  "encoding example_utf16_engine = ''utf_16''"
  "prefx00 example_utf16_engine = [0xFF, 0xFE, 0x00, 0x00]"
  "prefx01 example_utf16_engine = [0xFF, 0xFE, 0x01, 0x00]"
  "algorithm example_raw_engine = ''SHA256''"
  by (simp_all add: example_engine_def example_plain_engine_def example_utf16_engine_def
        example_raw_engine_def)

lemma example_consume:
  "consume example_hashlib python_encode example_engine buffer
     = python_encode ''utf_8'' (hexlify (example_digest buffer))"
  "consume example_hashlib python_encode example_plain_engine buffer
     = python_encode ''utf_8'' (hexlify (example_digest buffer))"
  "consume example_hashlib python_encode example_utf16_engine buffer
     = python_encode ''utf_16'' (hexlify (example_digest buffer))"
  using consume_Some [where hashlib = example_hashlib and f = example_digest
          and encode = python_encode and buffer = buffer, OF example_hashlib_sha256(1)]
        consume_Some [where hashlib = example_hashlib and f = example_digest
          and encode = python_encode and buffer = buffer, OF example_hashlib_sha256(2)]
        consume_Some [where hashlib = example_hashlib and f = example_digest
          and encode = python_encode and buffer = buffer, OF example_hashlib_sha256(3)]
  by (simp_all add: example_fields)

subsection \<open>The claims about hashing.py\<close>

text \<open>
  C4. The claim: for every engine constructed with supported parameters and every buffer
  (the empty one and the multiples of the chunk size included), \<open>consume\<close>, which feeds
  the buffer to the hasher in chunks of 1024 bytes, returns what hashing the whole buffer
  in one shot gives, the lowercase hexadecimal digest of the configured algorithm over
  the buffer, encoded with the configured encoding. The code does so on every engine whose
  algorithm was provided in a spelling that hashlib knows. Construction also accepts a
  name that is supported only after normalization, such as \<^verbatim>\<open>SHA256\<close> or
  \<^verbatim>\<open>sha3-256\<close>, and the engine keeps the name as it was provided (line 27 binds the
  normalized name to \<^verbatim>\<open>algorith\<close>): on such an engine \<open>consume\<close> raises
  \<^verbatim>\<open>AttributeError\<close> and returns no digest.
\<close>

theorem consume_digest_or_raises:
  assumes init: "HashEngine_init ALGORITHMS ENCODINGS encode a enc sec = Inr self"
  shows "normalized a \<in> set ALGORITHMS \<and> algorithm self = a
     \<and> (hashlib a = Some f \<longrightarrow>
          consume hashlib encode self buffer = encode (encoding self) (hexlify (f buffer)))
     \<and> (hashlib a = None \<longrightarrow>
          consume hashlib encode self buffer = Inl (AttributeError a))"
proof -
  have supported: "normalized a \<in> set ALGORITHMS"
    by (rule HashEngine_init_Inr(1) [OF init])
  have stored: "algorithm self = a"
    by (rule HashEngine_init_Inr(3) [OF init])
  have known: "hashlib a = Some f \<longrightarrow>
          consume hashlib encode self buffer = encode (encoding self) (hexlify (f buffer))"
    using stored by (simp add: consume_Some [where hashlib = hashlib and f = f])
  have unknown: "hashlib a = None \<longrightarrow>
          consume hashlib encode self buffer = Inl (AttributeError a)"
    using stored by (simp add: consume_None)
  from supported stored known unknown show ?thesis
    by blast
qed

theorem consume_digest_or_raises_witness:
  "consume example_hashlib python_encode example_engine [] = Inr [0x30, 0x30, 0x30, 0x30]
   \<and> consume example_hashlib python_encode example_engine (replicate 1023 0x61 @ [0x62])
       = Inr [0x30, 0x30, 0x30, 0x31]
   \<and> consume example_hashlib python_encode example_engine (replicate 1025 0x0A)
       = Inr [0x30, 0x31, 0x30, 0x61]
   \<and> HashEngine_init example_ALGORITHMS example_ENCODINGS python_encode ''SHA256'' ''utf-8'' True
       = Inr example_raw_engine
   \<and> normalized ''SHA256'' \<in> set example_ALGORITHMS
   \<and> consume example_hashlib python_encode example_raw_engine [0x61]
       = Inl (AttributeError ''SHA256'')"
proof -
  note good = consume_digest_or_raises [OF example_engine_init,
                where hashlib = example_hashlib and f = example_digest]
  note raw = consume_digest_or_raises [OF example_raw_engine_init,
               where hashlib = example_hashlib and buffer = "[0x61]"]
  have digests:
    "python_encode ''utf_8'' (hexlify (example_digest [])) = Inr [0x30, 0x30, 0x30, 0x30]"
    "python_encode ''utf_8'' (hexlify (example_digest (replicate 1023 0x61 @ [0x62])))
       = Inr [0x30, 0x30, 0x30, 0x31]"
    "python_encode ''utf_8'' (hexlify (example_digest (replicate 1025 0x0A)))
       = Inr [0x30, 0x31, 0x30, 0x61]"
    by (simp_all add: example_eval)
  have "consume example_hashlib python_encode example_engine []
          = Inr [0x30, 0x30, 0x30, 0x30]"
    using good [where buffer = "[]"] digests(1) example_hashlib_sha256(4) example_fields(1)
    by simp
  moreover have "consume example_hashlib python_encode example_engine
                   (replicate 1023 0x61 @ [0x62]) = Inr [0x30, 0x30, 0x30, 0x31]"
    using good [where buffer = "replicate 1023 0x61 @ [0x62]"] digests(2)
          example_hashlib_sha256(4) example_fields(1)
    by simp
  moreover have "consume example_hashlib python_encode example_engine (replicate 1025 0x0A)
                   = Inr [0x30, 0x31, 0x30, 0x61]"
    using good [where buffer = "replicate 1025 0x0A"] digests(3)
          example_hashlib_sha256(4) example_fields(1)
    by simp
  moreover have "normalized ''SHA256'' \<in> set example_ALGORITHMS
                 \<and> consume example_hashlib python_encode example_raw_engine [0x61]
                     = Inl (AttributeError ''SHA256'')"
    using raw example_hashlib_sha256(5) by blast
  ultimately show ?thesis
    using example_raw_engine_init by blast
qed

text \<open>
  C10. An engine constructed with security off has both prefixes empty: for all byte
  strings \<open>left\<close> and \<open>right\<close>, \<open>hash_pair left right\<close> is the plain digest of
  \<open>left @ right\<close> (what \<open>consume\<close> returns for it: the hexadecimal digest of the bytes,
  encoded), and it is \<open>hash_entry\<close> of the bytes \<open>left @ right\<close>.
\<close>

theorem security_off_no_separation:
  assumes "HashEngine_init ALGORITHMS ENCODINGS encode a enc False = Inr self"
  shows "prefx00 self = [] \<and> prefx01 self = []
     \<and> hash_pair hashlib encode self left right = consume hashlib encode self (left @ right)
     \<and> (hashlib (algorithm self) = Some f \<longrightarrow>
          hash_pair hashlib encode self left right
            = encode (encoding self) (hexlify (f (left @ right))))
     \<and> hash_pair hashlib encode self left right
         = hash_entry hashlib encode self (Bytes (left @ right))"
proof -
  have p: "prefx00 self = []" "prefx01 self = []"
    using HashEngine_init_Inr(8,9) [OF assms] by simp_all
  then have pair: "hash_pair hashlib encode self left right
                     = consume hashlib encode self (left @ right)"
    by (simp add: hash_pair_def)
  have plain: "hashlib (algorithm self) = Some f \<longrightarrow>
          hash_pair hashlib encode self left right
            = encode (encoding self) (hexlify (f (left @ right)))"
    using pair by (simp add: consume_Some [where hashlib = hashlib and f = f])
  have entry: "hash_pair hashlib encode self left right
                 = hash_entry hashlib encode self (Bytes (left @ right))"
    using p pair by (simp add: hash_entry_def)
  from p pair plain entry show ?thesis
    by blast
qed

theorem security_off_no_separation_witness:
  "prefx00 example_plain_engine = [] \<and> prefx01 example_plain_engine = []
   \<and> hash_pair example_hashlib python_encode example_plain_engine [0x61] [0x62]
       = Inr [0x30, 0x32, 0x63, 0x33]
   \<and> hash_entry example_hashlib python_encode example_plain_engine (Bytes [0x61, 0x62])
       = Inr [0x30, 0x32, 0x63, 0x33]"
proof -
  note w = security_off_no_separation [OF example_plain_engine_init,
             where hashlib = example_hashlib and f = example_digest
               and left = "[0x61]" and right = "[0x62]"]
  have d: "python_encode (encoding example_plain_engine)
             (hexlify (example_digest ([0x61] @ [0x62]))) = Inr [0x30, 0x32, 0x63, 0x33]"
    by (simp add: example_eval example_fields)
  from w example_hashlib_sha256(2)
  have "hash_pair example_hashlib python_encode example_plain_engine [0x61] [0x62]
          = python_encode (encoding example_plain_engine)
              (hexlify (example_digest ([0x61] @ [0x62])))"
    by blast
  moreover from w
  have "hash_pair example_hashlib python_encode example_plain_engine [0x61] [0x62]
          = hash_entry example_hashlib python_encode example_plain_engine
              (Bytes ([0x61] @ [0x62]))"
    by blast
  moreover from w have "prefx00 example_plain_engine = [] \<and> prefx01 example_plain_engine = []"
    by blast
  ultimately show ?thesis
    using d by simp
qed

text \<open>
  C2, as amended. For every engine that construction returned, on which hashlib has a
  constructor under the stored algorithm name, and every input: \<open>hash_entry\<close> encodes a
  text input with the configured (normalized) encoding and takes a bytes input as it is,
  prepends the leaf prefix fixed at construction, computes the digest of the resulting
  buffer and returns its lowercase hexadecimal string encoded with the configured
  encoding. With security on, the leaf prefix is what the configured encoding makes of the
  character U+0000: the single byte 00 whenever the encoding maps U+0000 to that byte,
  as utf-8 does. With security off it is empty.
\<close>

theorem hash_entry_digest:
  assumes init: "HashEngine_init ALGORITHMS ENCODINGS encode a enc sec = Inr self"
      and alg: "hashlib (algorithm self) = Some f"
  shows "encoding self = normalized enc
     \<and> (sec \<longrightarrow> encode (encoding self) [CHR 0x00] = Inr (prefx00 self))
     \<and> (sec \<and> encode (encoding self) [CHR 0x00] = Inr [0x00] \<longrightarrow> prefx00 self = [0x00])
     \<and> (\<not> sec \<longrightarrow> prefx00 self = [])
     \<and> hash_entry hashlib encode self (Bytes b)
         = encode (encoding self) (hexlify (f (prefx00 self @ b)))
     \<and> hash_entry hashlib encode self (Text t)
         = (case encode (encoding self) t of
              Inl e \<Rightarrow> Inl e
            | Inr b' \<Rightarrow> encode (encoding self) (hexlify (f (prefx00 self @ b'))))"
proof -
  note facts = HashEngine_init_Inr [OF init]
  have enc: "encoding self = normalized enc"
    by (rule facts(4))
  have on: "sec \<longrightarrow> encode (encoding self) [CHR 0x00] = Inr (prefx00 self)"
    using facts(6) enc by simp
  have off: "\<not> sec \<longrightarrow> prefx00 self = []"
    using facts(8) by simp
  have on_bytes: "hash_entry hashlib encode self (Bytes b)
                 = encode (encoding self) (hexlify (f (prefx00 self @ b)))"
    by (simp add: hash_entry_def consume_Some [where hashlib = hashlib and f = f, OF alg])
  have on_text: "hash_entry hashlib encode self (Text t)
                = (case encode (encoding self) t of
                     Inl e \<Rightarrow> Inl e
                   | Inr b' \<Rightarrow> encode (encoding self) (hexlify (f (prefx00 self @ b'))))"
    by (simp add: hash_entry_def consume_Some [where hashlib = hashlib and f = f, OF alg]
          split: sum.splits)
  from enc on off on_bytes on_text show ?thesis
    by auto
qed

theorem hash_entry_digest_witness:
  "encoding example_engine = ''utf_8'' \<and> prefx00 example_engine = [0x00]
   \<and> hash_entry example_hashlib python_encode example_engine (Bytes [0x61])
       = Inr [0x30, 0x32, 0x36, 0x31]
   \<and> hash_entry example_hashlib python_encode example_engine (Text ''a'')
       = Inr [0x30, 0x32, 0x36, 0x31]
   \<and> prefx00 example_plain_engine = []
   \<and> hash_entry example_hashlib python_encode example_plain_engine (Bytes [0x61])
       = Inr [0x30, 0x31, 0x36, 0x31]"
proof -
  note off = hash_entry_digest [where hashlib = example_hashlib and f = example_digest
               and b = "[0x61]" and t = "''a''",
               OF example_plain_engine_init example_hashlib_sha256(2)]
  have plain: "python_encode ''utf_8'' (hexlify (example_digest ([] @ [0x61])))
                 = Inr [0x30, 0x31, 0x36, 0x31]"
    by (simp add: example_eval)
  from off have "prefx00 example_plain_engine = []"
    by blast
  moreover from off this example_fields(4) plain
  have "hash_entry example_hashlib python_encode example_plain_engine (Bytes [0x61])
          = Inr [0x30, 0x31, 0x36, 0x31]"
    by simp
  moreover
  note w = hash_entry_digest [where hashlib = example_hashlib and f = example_digest
             and b = "[0x61]" and t = "''a''",
             OF example_engine_init example_hashlib_sha256(1)]
  have e: "python_encode ''utf_8'' ''a'' = Inr [0x61]"
          "python_encode ''utf_8'' (hexlify (example_digest ([0x00] @ [0x61])))
             = Inr [0x30, 0x32, 0x36, 0x31]"
          "python_encode ''utf_8'' [CHR 0x00] = Inr [0x00]"
    by (simp_all add: example_eval)
  from w e example_fields(1,2)
  have "encoding example_engine = ''utf_8'' \<and> prefx00 example_engine = [0x00]
   \<and> hash_entry example_hashlib python_encode example_engine (Bytes [0x61])
       = Inr [0x30, 0x32, 0x36, 0x31]
   \<and> hash_entry example_hashlib python_encode example_engine (Text ''a'')
       = Inr [0x30, 0x32, 0x36, 0x31]"
    by simp
  ultimately show ?thesis
    by blast
qed

text \<open>
  C2 as stated fails: the engine for \<^verbatim>\<open>('sha256', 'utf-16', True)\<close> has the four-byte
  leaf prefix FF FE 00 00 (the byte-order mark and U+0000 in two bytes), and
  \<open>hash_entry\<close> digests the input behind these four bytes, not behind the single byte 00.
\<close>

theorem hash_entry_prefix_counterexample:
  "HashEngine_init example_ALGORITHMS example_ENCODINGS python_encode ''sha256'' ''utf-16'' True
     = Inr example_utf16_engine
   \<and> prefx00 example_utf16_engine = [0xFF, 0xFE, 0x00, 0x00]
   \<and> hash_entry example_hashlib python_encode example_utf16_engine (Bytes [0x61])
       = python_encode ''utf_16''
           (hexlify (example_digest [0xFF, 0xFE, 0x00, 0x00, 0x61]))
   \<and> hash_entry example_hashlib python_encode example_utf16_engine (Bytes [0x61])
       \<noteq> python_encode ''utf_16'' (hexlify (example_digest ([0x00] @ [0x61])))"
proof -
  have "hash_entry example_hashlib python_encode example_utf16_engine (Bytes [0x61])
          = python_encode ''utf_16''
              (hexlify (example_digest [0xFF, 0xFE, 0x00, 0x00, 0x61]))"
    by (simp add: hash_entry_def example_consume example_fields)
  moreover have "python_encode ''utf_16''
                   (hexlify (example_digest [0xFF, 0xFE, 0x00, 0x00, 0x61]))
                 \<noteq> python_encode ''utf_16'' (hexlify (example_digest ([0x00] @ [0x61])))"
    by (simp add: example_eval)
  ultimately show ?thesis
    by (simp add: example_utf16_engine_init example_fields)
qed

text \<open>
  C3, as amended. For every engine constructed with security on and all byte strings
  \<open>left\<close> and \<open>right\<close>, \<open>hash_pair\<close> prepends the pair prefix fixed at construction to
  each operand and digests \<open>prefix @ left @ prefix @ right\<close>. The pair prefix is what
  the configured encoding makes of the character U+0001: the single byte 01 whenever the
  encoding maps U+0001 to that byte. This is so for utf-8, and for the configuration
  \<^verbatim>\<open>{sha256, utf-8, true}\<close> the pair hash of \<open>hash_entry "a"\<close> and \<open>hash_entry "b"\<close>
  is the (hexadecimal, encoded) sha256 digest of
  \<open>01 + hash_entry "a" + 01 + hash_entry "b"\<close>.
\<close>

theorem hash_pair_digest:
  assumes init: "HashEngine_init ALGORITHMS ENCODINGS encode a enc True = Inr self"
  shows "encode (encoding self) [CHR 0x01] = Inr (prefx01 self)
     \<and> hash_pair hashlib encode self left right
         = consume hashlib encode self (prefx01 self @ left @ prefx01 self @ right)
     \<and> (hashlib (algorithm self) = Some f \<longrightarrow>
          hash_pair hashlib encode self left right
            = encode (encoding self)
                (hexlify (f (prefx01 self @ left @ prefx01 self @ right))))
     \<and> (encode (encoding self) [CHR 0x01] = Inr [0x01] \<longrightarrow> prefx01 self = [0x01])
     \<and> (a = ''sha256'' \<and> enc = ''utf-8'' \<and> hashlib ''sha256'' = Some sha256_fn
          \<and> encode ''utf_8'' [CHR 0x01] = Inr [0x01]
          \<and> hash_entry hashlib encode self (Text ''a'') = Inr ha
          \<and> hash_entry hashlib encode self (Text ''b'') = Inr hb \<longrightarrow>
          hash_pair hashlib encode self ha hb
            = encode ''utf_8'' (hexlify (sha256_fn ([0x01] @ ha @ [0x01] @ hb))))"
proof -
  note facts = HashEngine_init_Inr [OF init]
  have pre: "encode (encoding self) [CHR 0x01] = Inr (prefx01 self)"
    using facts(4) facts(7) by simp
  have pair: "hash_pair hashlib encode self l r
                = consume hashlib encode self (prefx01 self @ l @ prefx01 self @ r)"
    for l r
    by (simp add: hash_pair_def)
  have digest: "hashlib (algorithm self) = Some f \<longrightarrow>
          hash_pair hashlib encode self left right
            = encode (encoding self)
                (hexlify (f (prefx01 self @ left @ prefx01 self @ right)))"
    by (simp add: pair consume_Some [where hashlib = hashlib and f = f])
  have single: "encode (encoding self) [CHR 0x01] = Inr [0x01] \<longrightarrow> prefx01 self = [0x01]"
    using pre by auto
  have example: "hash_pair hashlib encode self ha hb
                   = encode ''utf_8'' (hexlify (sha256_fn ([0x01] @ ha @ [0x01] @ hb)))"
    if "a = ''sha256''" and "enc = ''utf-8''" and "hashlib ''sha256'' = Some sha256_fn"
      and "encode ''utf_8'' [CHR 0x01] = Inr [0x01]"
  proof -
    have names: "algorithm self = ''sha256''" "encoding self = ''utf_8''"
      using facts(3) facts(4) that by (simp_all add: normalized_examples)
    with pre that have "prefx01 self = [0x01]"
      by simp
    with names that show ?thesis
      by (simp add: pair consume_Some [where hashlib = hashlib and f = sha256_fn])
  qed
  from pre pair [of left right] digest single example show ?thesis
    by blast
qed

theorem hash_pair_digest_witness:
  "hash_entry example_hashlib python_encode example_engine (Text ''a'')
     = Inr [0x30, 0x32, 0x36, 0x31]
   \<and> hash_entry example_hashlib python_encode example_engine (Text ''b'')
     = Inr [0x30, 0x32, 0x36, 0x32]
   \<and> hash_pair example_hashlib python_encode example_engine
        [0x30, 0x32, 0x36, 0x31] [0x30, 0x32, 0x36, 0x32]
     = python_encode ''utf_8'' (hexlify (example_digest
         ([0x01] @ [0x30, 0x32, 0x36, 0x31] @ [0x01] @ [0x30, 0x32, 0x36, 0x32])))
   \<and> hash_pair example_hashlib python_encode example_engine
        [0x30, 0x32, 0x36, 0x31] [0x30, 0x32, 0x36, 0x32]
     = Inr [0x30, 0x61, 0x39, 0x35]"
proof -
  have ha: "hash_entry example_hashlib python_encode example_engine (Text ''a'')
              = Inr [0x30, 0x32, 0x36, 0x31]"
    by (simp add: hash_entry_def example_consume example_fields example_eval)
  have hb: "hash_entry example_hashlib python_encode example_engine (Text ''b'')
              = Inr [0x30, 0x32, 0x36, 0x32]"
    by (simp add: hash_entry_def example_consume example_fields example_eval)
  have enc: "python_encode ''utf_8'' [CHR 0x01] = Inr [0x01]"
    by (simp add: example_eval)
  note w = hash_pair_digest [where hashlib = example_hashlib and sha256_fn = example_digest
             and ha = "[0x30, 0x32, 0x36, 0x31]" and hb = "[0x30, 0x32, 0x36, 0x32]",
             OF example_engine_init]
  from w ha hb example_hashlib_sha256(4) enc
  have pair: "hash_pair example_hashlib python_encode example_engine
                [0x30, 0x32, 0x36, 0x31] [0x30, 0x32, 0x36, 0x32]
              = python_encode ''utf_8'' (hexlify (example_digest
                  ([0x01] @ [0x30, 0x32, 0x36, 0x31] @ [0x01] @ [0x30, 0x32, 0x36, 0x32])))"
    by blast
  have val: "python_encode ''utf_8'' (hexlify (example_digest
                  ([0x01] @ [0x30, 0x32, 0x36, 0x31] @ [0x01] @ [0x30, 0x32, 0x36, 0x32])))
             = Inr [0x30, 0x61, 0x39, 0x35]"
    by (simp add: example_eval)
  from ha hb pair val show ?thesis
    by simp
qed

text \<open>
  C3 as stated fails: the engine for \<^verbatim>\<open>('sha256', 'utf-16', True)\<close> has the four-byte
  pair prefix FF FE 01 00, and \<open>hash_pair\<close> digests the operands behind these four
  bytes each, not behind the single byte 01.
\<close>

theorem hash_pair_prefix_counterexample:
  "HashEngine_init example_ALGORITHMS example_ENCODINGS python_encode ''sha256'' ''utf-16'' True
     = Inr example_utf16_engine
   \<and> prefx01 example_utf16_engine = [0xFF, 0xFE, 0x01, 0x00]
   \<and> hash_pair example_hashlib python_encode example_utf16_engine [0x61] [0x62]
       = python_encode ''utf_16'' (hexlify (example_digest
           [0xFF, 0xFE, 0x01, 0x00, 0x61, 0xFF, 0xFE, 0x01, 0x00, 0x62]))
   \<and> hash_pair example_hashlib python_encode example_utf16_engine [0x61] [0x62]
       \<noteq> python_encode ''utf_16'' (hexlify (example_digest
           ([0x01] @ [0x61] @ [0x01] @ [0x62])))"
proof -
  have "hash_pair example_hashlib python_encode example_utf16_engine [0x61] [0x62]
          = python_encode ''utf_16'' (hexlify (example_digest
              [0xFF, 0xFE, 0x01, 0x00, 0x61, 0xFF, 0xFE, 0x01, 0x00, 0x62]))"
    by (simp add: hash_pair_def example_consume example_fields)
  moreover have "python_encode ''utf_16'' (hexlify (example_digest
                    [0xFF, 0xFE, 0x01, 0x00, 0x61, 0xFF, 0xFE, 0x01, 0x00, 0x62]))
                 \<noteq> python_encode ''utf_16'' (hexlify (example_digest
                    ([0x01] @ [0x61] @ [0x01] @ [0x62])))"
    by (simp add: example_eval)
  ultimately show ?thesis
    by (simp add: example_utf16_engine_init example_fields)
qed

text \<open>
  C6, as amended. Construction tests the normalized arguments (lower-cased, every
  \<^verbatim>\<open>-\<close> replaced by \<^verbatim>\<open>_\<close>), the algorithm first: it raises \<^verbatim>\<open>UnsupportedParameter\<close>,
  naming the value as it was provided, when the normalized algorithm is not in
  \<^verbatim>\<open>ALGORITHMS\<close> or the normalized encoding is not in \<^verbatim>\<open>ENCODINGS\<close>, and no engine
  exists then. It returns an engine exactly when both normalized values are supported
  and, with security on, the codec encodes the two prefix characters; the engine holds
  the encoding in its normalized form.
\<close>

theorem HashEngine_init_normalizes:
  "(normalized a \<notin> set ALGORITHMS \<longrightarrow>
      HashEngine_init ALGORITHMS ENCODINGS encode a enc sec
        = Inl (UnsupportedParameter (a @ '' is not supported'')))
   \<and> (normalized a \<in> set ALGORITHMS \<and> normalized enc \<notin> set ENCODINGS \<longrightarrow>
      HashEngine_init ALGORITHMS ENCODINGS encode a enc sec
        = Inl (UnsupportedParameter (enc @ '' is not supported'')))
   \<and> ((\<exists>self. HashEngine_init ALGORITHMS ENCODINGS encode a enc sec = Inr self) \<longleftrightarrow>
        normalized a \<in> set ALGORITHMS \<and> normalized enc \<in> set ENCODINGS
        \<and> (sec \<longrightarrow> (\<exists>p00 p01. encode (normalized enc) [CHR 0x00] = Inr p00
                         \<and> encode (normalized enc) [CHR 0x01] = Inr p01)))
   \<and> (\<forall>self. HashEngine_init ALGORITHMS ENCODINGS encode a enc sec = Inr self \<longrightarrow>
        encoding self = normalized enc \<and> security self = sec)"
proof -
  have bad_alg: "normalized a \<notin> set ALGORITHMS \<longrightarrow>
      HashEngine_init ALGORITHMS ENCODINGS encode a enc sec
        = Inl (UnsupportedParameter (a @ '' is not supported''))"
    by (simp add: HashEngine_init_unfold)
  have bad_enc: "normalized a \<in> set ALGORITHMS \<and> normalized enc \<notin> set ENCODINGS \<longrightarrow>
      HashEngine_init ALGORITHMS ENCODINGS encode a enc sec
        = Inl (UnsupportedParameter (enc @ '' is not supported''))"
    by (simp add: HashEngine_init_unfold)
  have built: "(\<exists>self. HashEngine_init ALGORITHMS ENCODINGS encode a enc sec = Inr self) \<longleftrightarrow>
        normalized a \<in> set ALGORITHMS \<and> normalized enc \<in> set ENCODINGS
        \<and> (sec \<longrightarrow> (\<exists>p00 p01. encode (normalized enc) [CHR 0x00] = Inr p00
                         \<and> encode (normalized enc) [CHR 0x01] = Inr p01))"
    by (auto simp: HashEngine_init_unfold split: sum.splits)
  have stored: "\<forall>self. HashEngine_init ALGORITHMS ENCODINGS encode a enc sec = Inr self \<longrightarrow>
        encoding self = normalized enc \<and> security self = sec"
    using HashEngine_init_Inr(4,5) by blast
  from bad_alg bad_enc built stored show ?thesis
    by blast
qed

theorem HashEngine_init_normalizes_witness:
  "HashEngine_init example_ALGORITHMS example_ENCODINGS python_encode ''md5'' ''utf-8'' True
     = Inl (UnsupportedParameter ''md5 is not supported'')
   \<and> HashEngine_init example_ALGORITHMS example_ENCODINGS python_encode ''sha256'' ''latin-1'' True
     = Inl (UnsupportedParameter ''latin-1 is not supported'')
   \<and> (\<exists>self. HashEngine_init example_ALGORITHMS example_ENCODINGS python_encode
                ''SHA256'' ''UTF-8'' True = Inr self)"
proof -
  have e: "python_encode ''utf_8'' [CHR 0x00] = Inr [0x00]"
          "python_encode ''utf_8'' [CHR 0x01] = Inr [0x01]"
    by (simp_all add: python_encode_def utf8_char_def)
  note w1 = HashEngine_init_normalizes [of "''md5''" example_ALGORITHMS example_ENCODINGS
              python_encode "''utf-8''" True]
  note w2 = HashEngine_init_normalizes [of "''sha256''" example_ALGORITHMS example_ENCODINGS
              python_encode "''latin-1''" True]
  note w3 = HashEngine_init_normalizes [of "''SHA256''" example_ALGORITHMS example_ENCODINGS
              python_encode "''UTF-8''" True]
  have "HashEngine_init example_ALGORITHMS example_ENCODINGS python_encode ''md5'' ''utf-8'' True
     = Inl (UnsupportedParameter ''md5 is not supported'')"
    using w1 by (simp add: example_ALGORITHMS_def normalized_examples)
  moreover have "HashEngine_init example_ALGORITHMS example_ENCODINGS python_encode
        ''sha256'' ''latin-1'' True
     = Inl (UnsupportedParameter ''latin-1 is not supported'')"
    using w2 by (simp add: example_ALGORITHMS_def example_ENCODINGS_def normalized_examples)
  moreover have "\<exists>self. HashEngine_init example_ALGORITHMS example_ENCODINGS python_encode
                ''SHA256'' ''UTF-8'' True = Inr self"
    using w3 e by (simp add: example_ALGORITHMS_def example_ENCODINGS_def normalized_examples)
  ultimately show ?thesis
    by blast
qed

text \<open>
  C6 as stated fails: \<^verbatim>\<open>'utf-8'\<close> is not a member of the supported encodings, and
  construction with it succeeds; the engine holds the supported value \<^verbatim>\<open>'utf_8'\<close> in its
  place.
\<close>

theorem construction_membership_counterexample:
  "HashEngine_init example_ALGORITHMS example_ENCODINGS python_encode ''sha256'' ''utf-8'' True
     = Inr example_engine
   \<and> ''utf-8'' \<notin> set example_ENCODINGS
   \<and> encoding example_engine = ''utf_8''"
proof -
  have "''utf-8'' \<notin> set example_ENCODINGS"
    by (simp add: example_ENCODINGS_def)
  with example_engine_init example_fields(1) show ?thesis
    by simp
qed

text \<open>
  The algorithm name is stored as it was provided, not in its normalized form. When
  hashlib has no constructor under the provided spelling, construction still succeeds if
  the normalized name is supported, and every digest operation of the engine raises
  \<^verbatim>\<open>AttributeError\<close>.
\<close>

theorem algorithm_kept_as_provided:
  assumes init: "HashEngine_init ALGORITHMS ENCODINGS encode a enc sec = Inr self"
      and none: "hashlib a = None"
  shows "algorithm self = a
     \<and> consume hashlib encode self buffer = Inl (AttributeError a)
     \<and> hash_entry hashlib encode self (Bytes b) = Inl (AttributeError a)
     \<and> hash_pair hashlib encode self left right = Inl (AttributeError a)"
proof -
  have "algorithm self = a"
    by (rule HashEngine_init_Inr(3) [OF init])
  with none show ?thesis
    by (simp add: hash_entry_def hash_pair_def consume_None)
qed

theorem algorithm_kept_as_provided_witness:
  "HashEngine_init example_ALGORITHMS example_ENCODINGS python_encode ''SHA256'' ''utf-8'' True
     = Inr example_raw_engine
   \<and> normalized ''SHA256'' \<in> set example_ALGORITHMS
   \<and> algorithm example_raw_engine = ''SHA256''
   \<and> consume example_hashlib python_encode example_raw_engine [0x61]
       = Inl (AttributeError ''SHA256'')
   \<and> hash_entry example_hashlib python_encode example_raw_engine (Bytes [0x61])
       = Inl (AttributeError ''SHA256'')
   \<and> hash_pair example_hashlib python_encode example_raw_engine [0x61] [0x62]
       = Inl (AttributeError ''SHA256'')"
proof -
  have "normalized ''SHA256'' \<in> set example_ALGORITHMS"
    by (simp add: normalized_examples example_ALGORITHMS_def)
  with algorithm_kept_as_provided [where hashlib = example_hashlib and a = "''SHA256''"
         and buffer = "[0x61]" and b = "[0x61]" and left = "[0x61]" and right = "[0x62]",
         OF example_raw_engine_init example_hashlib_sha256(5)]
       example_raw_engine_init
  show ?thesis
    by simp
qed

section \<open>Properties of validations.py\<close>

subsection \<open>Validator\<close>

lemma Validator_init_unfold:
  "Validator_init machine_init config =
     (if config ''hash_type'' = None then Inl (missing_parameter ''hash_type'')
      else if config ''encoding'' = None then Inl (missing_parameter ''encoding'')
      else if config ''raw_bytes'' = None then Inl (missing_parameter ''raw_bytes'')
      else if config ''security'' = None then Inl (missing_parameter ''security'')
      else machine_init (the (config ''hash_type'')) (the (config ''encoding''))
             (the (config ''raw_bytes'')) (the (config ''security'')))"
  by (auto simp: Validator_init_def split: option.splits)

lemma example_config_lookups:
  "example_config ''hash_type'' = Some (VStr ''sha256'')"
  "example_config ''encoding'' = Some (VStr ''utf-8'')"
  "example_config ''raw_bytes'' = Some (VBool True)"
  "example_config ''security'' = Some (VBool True)"
  "example_config ''algorithm'' = None"
  "example_config_algorithm ''hash_type'' = None"
  "example_config_algorithm ''algorithm'' = Some (VStr ''sha256'')"
  "example_config_algorithm ''encoding'' = Some (VStr ''utf-8'')"
  "example_config_algorithm ''raw_bytes'' = Some (VBool True)"
  "example_config_algorithm ''security'' = Some (VBool True)"
  by (simp_all add: example_config_def example_config_algorithm_def)

lemma example_proof_fields:
  "generation (header example_proof) = True"
  "generation (header example_failed_proof) = False"
  "proof_path (body example_proof) = [(1, [0x61]), (- 1, [0x62])]"
  "proof_index (body example_proof) = 0"
  "body example_failed_proof = body example_proof"
  "validation_params example_proof = example_config"
  "validation_params example_failed_proof = example_config"
  "uuid (header example_proof) = ''proof-1''"
  "provider (header example_proof) = ''tree-1''"
  "generation (header example_empty_proof) = True"
  "proof_path (body example_empty_proof) = []"
  "proof_index (body example_empty_proof) = 0"
  "validation_params example_empty_proof = example_config"
  by (simp_all add: example_proof_def example_failed_proof_def example_empty_proof_def)

lemma example_multi_hash_root:
  "example_multi_hash () [(1, [0x61]), (- 1, [0x62])] 0 = Inr [0x61]"
  by (simp add: example_multi_hash_def)

text \<open>
  C1. \<open>run\<close> raises the invalid-proof error at once when the proof's generation flag is
  false, whatever the body of the proof holds and whatever \<open>multi_hash\<close> would do with
  it. When folding the path from the start index gives a candidate root, \<open>run\<close> raises
  the invalid-proof error if and only if the generation flag is false or the root
  differs from the target, and returns without raising when the flag is true and the
  root is the target. An exception of \<open>multi_hash\<close> itself passes through.
\<close>

theorem run_invalid_iff:
  "(\<not> generation (header p) \<longrightarrow>
      run multi_hash self target (p\<lparr>body := any_body\<rparr>) = Inl InvalidMerkleProof)
   \<and> (multi_hash self (proof_path (body p)) (proof_index (body p)) = Inr root \<longrightarrow>
        (run multi_hash self target p = Inl InvalidMerkleProof
           \<longleftrightarrow> \<not> generation (header p) \<or> root \<noteq> target)
        \<and> (generation (header p) \<and> root = target \<longrightarrow>
             run multi_hash self target p = Inr ()))
   \<and> (generation (header p)
        \<and> multi_hash self (proof_path (body p)) (proof_index (body p)) = Inl e \<longrightarrow>
        run multi_hash self target p = Inl e)"
proof -
  have failed: "\<not> generation (header p) \<longrightarrow>
      run multi_hash self target (p\<lparr>body := any_body\<rparr>) = Inl InvalidMerkleProof"
    by (simp add: run_def)
  have folded: "(run multi_hash self target p = Inl InvalidMerkleProof
           \<longleftrightarrow> \<not> generation (header p) \<or> root \<noteq> target)
        \<and> (generation (header p) \<and> root = target \<longrightarrow>
             run multi_hash self target p = Inr ())"
    if "multi_hash self (proof_path (body p)) (proof_index (body p)) = Inr root"
    using that by (auto simp: run_def)
  have passes: "generation (header p)
        \<and> multi_hash self (proof_path (body p)) (proof_index (body p)) = Inl e \<longrightarrow>
        run multi_hash self target p = Inl e"
    by (simp add: run_def)
  from failed folded passes show ?thesis
    by blast
qed

theorem run_invalid_iff_witness:
  "run example_multi_hash () [0x61] example_proof = Inr ()
   \<and> run example_multi_hash () [0x62] example_proof = Inl InvalidMerkleProof
   \<and> run example_multi_hash () [0x61] (example_failed_proof\<lparr>body := body example_proof\<rparr>)
       = Inl InvalidMerkleProof
   \<and> run example_multi_hash () [0x61] example_empty_proof = Inl IndexError"
proof -
  have root: "example_multi_hash () (proof_path (body example_proof))
                (proof_index (body example_proof)) = Inr [0x61]"
    by (simp add: example_proof_fields example_multi_hash_root)
  note good = run_invalid_iff [where multi_hash = example_multi_hash and self = "()"
                and p = example_proof and root = "[0x61]" and target = "[0x61]"]
  note bad = run_invalid_iff [where multi_hash = example_multi_hash and self = "()"
               and p = example_proof and root = "[0x61]" and target = "[0x62]"]
  note failed = run_invalid_iff [where multi_hash = example_multi_hash and self = "()"
                  and p = example_failed_proof and target = "[0x61]"
                  and any_body = "body example_proof"]
  note passed = run_invalid_iff [where multi_hash = example_multi_hash and self = "()"
                  and p = example_empty_proof and target = "[0x61]" and e = IndexError]
  have "run example_multi_hash () [0x61] example_proof = Inr ()"
    using good root by (simp add: example_proof_fields)
  moreover have "run example_multi_hash () [0x61] example_empty_proof = Inl IndexError"
    using passed by (simp add: example_proof_fields example_multi_hash_def)
  moreover have "run example_multi_hash () [0x62] example_proof = Inl InvalidMerkleProof"
    using bad root by (simp add: example_proof_fields)
  moreover have "run example_multi_hash () [0x61]
                   (example_failed_proof\<lparr>body := body example_proof\<rparr>) = Inl InvalidMerkleProof"
    using failed by (simp add: example_proof_fields)
  ultimately show ?thesis
    by blast
qed

text \<open>
  C5, as amended. The constructor reads the keys \<^verbatim>\<open>hash_type\<close>, \<^verbatim>\<open>encoding\<close>,
  \<^verbatim>\<open>raw_bytes\<close> and \<^verbatim>\<open>security\<close>, in this order. When one is missing it raises the
  \<^verbatim>\<open>KeyError\<close> whose message names the first missing key, and the hash machine is not
  configured; so construction succeeds only for a mapping with these four keys. With the
  four keys present the outcome is that of the hash machine's constructor on the four
  values.
\<close>

theorem Validator_init_keys:
  "(config ''hash_type'' = None \<longrightarrow>
      Validator_init machine_init config = Inl (missing_parameter ''hash_type''))
   \<and> (config ''hash_type'' \<noteq> None \<and> config ''encoding'' = None \<longrightarrow>
      Validator_init machine_init config = Inl (missing_parameter ''encoding''))
   \<and> (config ''hash_type'' \<noteq> None \<and> config ''encoding'' \<noteq> None
        \<and> config ''raw_bytes'' = None \<longrightarrow>
      Validator_init machine_init config = Inl (missing_parameter ''raw_bytes''))
   \<and> (config ''hash_type'' \<noteq> None \<and> config ''encoding'' \<noteq> None
        \<and> config ''raw_bytes'' \<noteq> None \<and> config ''security'' = None \<longrightarrow>
      Validator_init machine_init config = Inl (missing_parameter ''security''))
   \<and> (config ''hash_type'' = Some h \<and> config ''encoding'' = Some e
        \<and> config ''raw_bytes'' = Some r \<and> config ''security'' = Some s \<longrightarrow>
      Validator_init machine_init config = machine_init h e r s)
   \<and> (Validator_init machine_init config = Inr validator \<longrightarrow>
        {''hash_type'', ''encoding'', ''raw_bytes'', ''security''} \<subseteq> dom config)
   \<and> missing_parameter key
        = KeyError (''Hash-machine could not be configured: missing parameter: ''
                    @ [CHR 0x27] @ key @ [CHR 0x27])"
proof -
  have built: "Validator_init machine_init config = Inr validator \<longrightarrow>
        {''hash_type'', ''encoding'', ''raw_bytes'', ''security''} \<subseteq> dom config"
    by (auto simp: Validator_init_unfold split: if_splits)
  then show ?thesis
    by (simp add: Validator_init_unfold missing_parameter_def)
qed

theorem Validator_init_keys_witness:
  "Validator_init example_machine_init example_config = Inr ()
   \<and> Validator_init example_machine_init (example_config(''hash_type'' := None))
       = Inl (KeyError (''Hash-machine could not be configured: missing parameter: ''
                        @ [CHR 0x27] @ ''hash_type'' @ [CHR 0x27]))
   \<and> Validator_init example_machine_init (example_config(''encoding'' := None))
       = Inl (KeyError (''Hash-machine could not be configured: missing parameter: ''
                        @ [CHR 0x27] @ ''encoding'' @ [CHR 0x27]))
   \<and> Validator_init example_machine_init (example_config(''raw_bytes'' := None))
       = Inl (KeyError (''Hash-machine could not be configured: missing parameter: ''
                        @ [CHR 0x27] @ ''raw_bytes'' @ [CHR 0x27]))
   \<and> Validator_init example_machine_init (example_config(''security'' := None))
       = Inl (KeyError (''Hash-machine could not be configured: missing parameter: ''
                        @ [CHR 0x27] @ ''security'' @ [CHR 0x27]))
   \<and> Validator_init example_machine_init
        (example_config(''hash_type'' := None, ''security'' := None))
       = Inl (KeyError (''Hash-machine could not be configured: missing parameter: ''
                        @ [CHR 0x27] @ ''hash_type'' @ [CHR 0x27]))
   \<and> {''hash_type'', ''encoding'', ''raw_bytes'', ''security''} \<subseteq> dom example_config"
proof -
  note w = Validator_init_keys [where machine_init = example_machine_init
             and h = "VStr ''sha256''" and e = "VStr ''utf-8''"
             and r = "VBool True" and s = "VBool True" and validator = "()"]
  have all: "Validator_init example_machine_init example_config = Inr ()"
    using w [where config = example_config]
    by (simp add: example_config_lookups example_machine_init_def)
  have keys: "{''hash_type'', ''encoding'', ''raw_bytes'', ''security''} \<subseteq> dom example_config"
    using w [where config = example_config] all by blast
  have no_hash_type: "Validator_init example_machine_init (example_config(''hash_type'' := None))
       = Inl (KeyError (''Hash-machine could not be configured: missing parameter: ''
                        @ [CHR 0x27] @ ''hash_type'' @ [CHR 0x27]))"
    using w [where config = "example_config(''hash_type'' := None)" and key = "''hash_type''"]
    by (simp add: example_config_lookups)
  have no_encoding: "Validator_init example_machine_init (example_config(''encoding'' := None))
       = Inl (KeyError (''Hash-machine could not be configured: missing parameter: ''
                        @ [CHR 0x27] @ ''encoding'' @ [CHR 0x27]))"
    using w [where config = "example_config(''encoding'' := None)" and key = "''encoding''"]
    by (simp add: example_config_lookups)
  have no_raw_bytes: "Validator_init example_machine_init (example_config(''raw_bytes'' := None))
       = Inl (KeyError (''Hash-machine could not be configured: missing parameter: ''
                        @ [CHR 0x27] @ ''raw_bytes'' @ [CHR 0x27]))"
    using w [where config = "example_config(''raw_bytes'' := None)" and key = "''raw_bytes''"]
    by (simp add: example_config_lookups)
  have no_security: "Validator_init example_machine_init (example_config(''security'' := None))
       = Inl (KeyError (''Hash-machine could not be configured: missing parameter: ''
                        @ [CHR 0x27] @ ''security'' @ [CHR 0x27]))"
    using w [where config = "example_config(''security'' := None)" and key = "''security''"]
    by (simp add: example_config_lookups)
  have first: "Validator_init example_machine_init
        (example_config(''hash_type'' := None, ''security'' := None))
       = Inl (KeyError (''Hash-machine could not be configured: missing parameter: ''
                        @ [CHR 0x27] @ ''hash_type'' @ [CHR 0x27]))"
    using w [where config = "example_config(''hash_type'' := None, ''security'' := None)"
               and key = "''hash_type''"]
    by (simp add: example_config_lookups)
  from all keys no_hash_type no_encoding no_raw_bytes no_security first show ?thesis
    by blast
qed

text \<open>
  C5 as stated fails: a mapping with the keys \<^verbatim>\<open>hash_type\<close>, \<^verbatim>\<open>encoding\<close>, \<^verbatim>\<open>raw_bytes\<close>
  and \<^verbatim>\<open>security\<close> has no key \<^verbatim>\<open>algorithm\<close>, and the constructor raises no error for it;
  a mapping with the four keys \<^verbatim>\<open>algorithm\<close>, \<^verbatim>\<open>encoding\<close>, \<^verbatim>\<open>raw_bytes\<close> and \<^verbatim>\<open>security\<close>
  is refused for the missing key \<^verbatim>\<open>hash_type\<close>.
\<close>

theorem Validator_keys_counterexample:
  "''algorithm'' \<notin> dom example_config
   \<and> Validator_init example_machine_init example_config = Inr ()
   \<and> {''algorithm'', ''encoding'', ''raw_bytes'', ''security''} \<subseteq> dom example_config_algorithm
   \<and> Validator_init example_machine_init example_config_algorithm
       = Inl (missing_parameter ''hash_type'')"
  by (simp add: Validator_init_unfold example_config_lookups example_machine_init_def dom_def)

subsection \<open>validateProof\<close>

lemma run_example:
  "run example_multi_hash () [0x61] example_proof = Inr ()"
  "run example_multi_hash () [0x62] example_proof = Inl InvalidMerkleProof"
  "run example_multi_hash () [0x61] example_failed_proof = Inl InvalidMerkleProof"
  "run example_multi_hash () [0x61] example_empty_proof
     = Inl IndexError"
  by (simp_all add: run_def example_proof_fields example_multi_hash_def)

lemma Validator_init_example:
  "Validator_init example_machine_init example_config = Inr ()"
  by (simp add: Validator_init_unfold example_config_lookups example_machine_init_def)

lemma validateProof_example:
  "validateProof example_machine_init example_multi_hash [0x61] example_proof
     = Inr (True, example_proof\<lparr>header := (header example_proof)\<lparr>status := Some True\<rparr>\<rparr>)"
  by (simp add: validateProof_def example_proof_fields Validator_init_example run_example
        set_status_def)

text \<open>
  C7. \<open>validateProof\<close> constructs the validator from the proof's validation parameters
  and runs it. It returns \<open>True\<close> when \<open>run\<close> raises nothing and \<open>False\<close> when \<open>run\<close>
  raises the invalid-proof error, which never leaves \<open>validateProof\<close>; in both cases the
  proof it leaves behind has the returned boolean in \<^verbatim>\<open>header['status']\<close> and is
  otherwise unchanged. A failure of the construction and any other exception of \<open>run\<close>
  propagate.
\<close>

theorem validateProof_result:
  "(Validator_init machine_init (validation_params p) = Inl e \<longrightarrow>
      validateProof machine_init multi_hash target p = Inl e)
   \<and> (Validator_init machine_init (validation_params p) = Inr validator \<longrightarrow>
        (run multi_hash validator target p = Inr () \<longrightarrow>
           validateProof machine_init multi_hash target p
             = Inr (True, p\<lparr>header := (header p)\<lparr>status := Some True\<rparr>\<rparr>))
        \<and> (run multi_hash validator target p = Inl InvalidMerkleProof \<longrightarrow>
           validateProof machine_init multi_hash target p
             = Inr (False, p\<lparr>header := (header p)\<lparr>status := Some False\<rparr>\<rparr>))
        \<and> (run multi_hash validator target p = Inl e' \<and> e' \<noteq> InvalidMerkleProof \<longrightarrow>
           validateProof machine_init multi_hash target p = Inl e')
        \<and> validateProof machine_init multi_hash target p \<noteq> Inl InvalidMerkleProof)
   \<and> (validateProof machine_init multi_hash target p = Inr (result, p') \<longrightarrow>
        status (header p') = Some result
        \<and> p' = p\<lparr>header := (header p)\<lparr>status := Some result\<rparr>\<rparr>)"
proof -
  have construction: "Validator_init machine_init (validation_params p) = Inl e \<longrightarrow>
      validateProof machine_init multi_hash target p = Inl e"
    by (simp add: validateProof_def)
  have running: "(run multi_hash validator target p = Inr () \<longrightarrow>
           validateProof machine_init multi_hash target p
             = Inr (True, p\<lparr>header := (header p)\<lparr>status := Some True\<rparr>\<rparr>))
        \<and> (run multi_hash validator target p = Inl InvalidMerkleProof \<longrightarrow>
           validateProof machine_init multi_hash target p
             = Inr (False, p\<lparr>header := (header p)\<lparr>status := Some False\<rparr>\<rparr>))
        \<and> (run multi_hash validator target p = Inl e' \<and> e' \<noteq> InvalidMerkleProof \<longrightarrow>
           validateProof machine_init multi_hash target p = Inl e')
        \<and> validateProof machine_init multi_hash target p \<noteq> Inl InvalidMerkleProof"
    if "Validator_init machine_init (validation_params p) = Inr validator"
    using that by (auto simp: validateProof_def set_status_def split: sum.splits)
  have written: "validateProof machine_init multi_hash target p = Inr (result, p') \<longrightarrow>
        status (header p') = Some result
        \<and> p' = p\<lparr>header := (header p)\<lparr>status := Some result\<rparr>\<rparr>"
    by (auto simp: validateProof_def set_status_def split: sum.splits if_splits)
  from construction running written show ?thesis
    by blast
qed

theorem validateProof_result_witness:
  "validateProof example_machine_init example_multi_hash [0x61] example_proof
     = Inr (True, example_proof\<lparr>header := (header example_proof)\<lparr>status := Some True\<rparr>\<rparr>)
   \<and> validateProof example_machine_init example_multi_hash [0x62] example_proof
     = Inr (False, example_proof\<lparr>header := (header example_proof)\<lparr>status := Some False\<rparr>\<rparr>)
   \<and> validateProof example_machine_init example_multi_hash [0x61]
        example_empty_proof
     = Inl IndexError
   \<and> validateProof example_machine_init example_multi_hash [0x61]
        (example_proof\<lparr>validation_params := example_config_algorithm\<rparr>)
     = Inl (missing_parameter ''hash_type'')
   \<and> status (header (example_proof\<lparr>header := (header example_proof)\<lparr>status := Some True\<rparr>\<rparr>))
     = Some True"
proof -
  have init: "Validator_init example_machine_init (validation_params example_proof) = Inr ()"
    "Validator_init example_machine_init
       (validation_params example_empty_proof) = Inr ()"
    by (simp_all add: example_proof_fields Validator_init_example)
  have none: "Validator_init example_machine_init
                (validation_params (example_proof\<lparr>validation_params := example_config_algorithm\<rparr>))
              = Inl (missing_parameter ''hash_type'')"
    by (simp add: Validator_init_unfold example_config_lookups)
  note valid = validateProof_result [where machine_init = example_machine_init
                 and multi_hash = example_multi_hash and target = "[0x61]" and p = example_proof
                 and validator = "()"]
  note invalid = validateProof_result [where machine_init = example_machine_init
                   and multi_hash = example_multi_hash and target = "[0x62]" and p = example_proof
                   and validator = "()"]
  note other = validateProof_result [where machine_init = example_machine_init
                 and multi_hash = example_multi_hash and target = "[0x61]"
                 and p = "example_empty_proof"
                 and validator = "()" and e' = IndexError]
  note config = validateProof_result [where machine_init = example_machine_init
                  and multi_hash = example_multi_hash and target = "[0x61]"
                  and p = "example_proof\<lparr>validation_params := example_config_algorithm\<rparr>"
                  and e = "missing_parameter ''hash_type''"]
  from valid init(1) run_example(1)
  have returned: "validateProof example_machine_init example_multi_hash [0x61] example_proof
     = Inr (True, example_proof\<lparr>header := (header example_proof)\<lparr>status := Some True\<rparr>\<rparr>)"
    by blast
  from validateProof_result [where machine_init = example_machine_init
         and multi_hash = example_multi_hash and target = "[0x61]" and p = example_proof
         and result = True
         and p' = "example_proof\<lparr>header := (header example_proof)\<lparr>status := Some True\<rparr>\<rparr>"]
       returned
  have "status (header (example_proof\<lparr>header := (header example_proof)\<lparr>status := Some True\<rparr>\<rparr>))
          = Some True"
    by blast
  moreover note returned
  moreover from invalid init(1) run_example(2)
  have "validateProof example_machine_init example_multi_hash [0x62] example_proof
     = Inr (False, example_proof\<lparr>header := (header example_proof)\<lparr>status := Some False\<rparr>\<rparr>)"
    by blast
  moreover from other init(2) run_example(4)
  have "validateProof example_machine_init example_multi_hash [0x61]
        example_empty_proof = Inl IndexError"
    by blast
  moreover from config none
  have "validateProof example_machine_init example_multi_hash [0x61]
        (example_proof\<lparr>validation_params := example_config_algorithm\<rparr>)
     = Inl (missing_parameter ''hash_type'')"
    by blast
  ultimately show ?thesis
    by blast
qed

subsection \<open>Receipts\<close>



lemma Receipt_init_keywords:
  "Receipt_init json_loads w []
     (no_kwargs\<lparr>kw_proof_uuid := Some pu, kw_proof_provider := Some pp, kw_result := Some res\<rparr>)
   = Inr (\<lparr>receipt_header = [''uuid'' \<mapsto> VStr (uuid1 w (uuids_minted w)),
                              ''timestamp'' \<mapsto> VInt (time_now w),
                              ''validation_moment'' \<mapsto> VStr (ctime_now w)],
           receipt_body = [''proof_uuid'' \<mapsto> pu, ''proof_provider'' \<mapsto> pp, ''result'' \<mapsto> res]\<rparr>,
          w\<lparr>uuids_minted := Suc (uuids_minted w)\<rparr>)"
  by (simp add: Receipt_init_def no_kwargs_def fresh_header_def)





lemma example_world_fields:
  "uuid1 example_world (uuids_minted example_world) = ''receipt-0''"
  "time_now example_world = 1600000000"
  "ctime_now example_world = ''Sun Sep 13 12:26:40 2020''"
  "files example_world = Map.empty"
  "open_fails example_world path = False"
  by (simp_all add: example_world_def digit_char_def)

lemma example_closed_world_fields:
  "uuid1 example_closed_world (uuids_minted example_closed_world) = ''receipt-0''"
  "open_fails example_closed_world path = True"
  by (simp_all add: example_closed_world_def example_world_def digit_char_def)



subsection \<open>validationReceipt\<close>

lemma validateProof_Inr:
  "validateProof machine_init multi_hash target p = Inr (result, p') \<Longrightarrow>
   p' = set_status p result"
  by (auto simp: validateProof_def split: sum.splits if_splits)

lemma set_status_fields:
  "uuid (header (set_status p result)) = uuid (header p)"
  "provider (header (set_status p result)) = provider (header p)"
  by (simp_all add: set_status_def)

text \<open>
  C8. When the validation returns a boolean, \<open>validationReceipt\<close> returns a fresh
  receipt whose body holds the proof's uuid, the proof's provider and that boolean.
  Without a directory (the argument left out, or the empty string, which Python reads
  as false) the files are as before. With a directory it writes the receipt's JSON
  serialization, with sorted keys and an indentation of 4, to the file
  \<^verbatim>\<open>os.path.join(dirpath, uuid + '.json')\<close> of the receipt's own uuid, which is
  \<^verbatim>\<open>dirpath/uuid.json\<close> for a directory path that does not end in a slash; that is the
  only change of the files. A failure to open the file propagates.
\<close>

theorem validationReceipt_result:
  assumes valid: "validateProof machine_init multi_hash target p = Inr (result, p')"
  shows "let receipt_uuid = uuid1 w (uuids_minted w);
             receipt = \<lparr>receipt_header = [''uuid'' \<mapsto> VStr receipt_uuid,
                                          ''timestamp'' \<mapsto> VInt (time_now w),
                                          ''validation_moment'' \<mapsto> VStr (ctime_now w)],
                        receipt_body = [''proof_uuid'' \<mapsto> VStr (uuid (header p)),
                                        ''proof_provider'' \<mapsto> VStr (provider (header p)),
                                        ''result'' \<mapsto> VBool result]\<rparr>;
             w' = w\<lparr>uuids_minted := Suc (uuids_minted w)\<rparr>;
             path = path_join d (receipt_uuid @ ''.json'')
         in (dirpath = None \<or> dirpath = Some [] \<longrightarrow>
               validationReceipt machine_init multi_hash json_dumps json_loads w target p dirpath
                 = Inr (receipt, p', w')
               \<and> files w' = files w)
          \<and> (dirpath = Some d \<and> d \<noteq> [] \<and> \<not> open_fails w path \<longrightarrow>
               validationReceipt machine_init multi_hash json_dumps json_loads w target p dirpath
                 = Inr (receipt, p',
                        w'\<lparr>files := (files w)(path \<mapsto> json_dumps True 4 (serialize receipt))\<rparr>))
          \<and> (dirpath = Some d \<and> d \<noteq> [] \<and> open_fails w path \<longrightarrow>
               validationReceipt machine_init multi_hash json_dumps json_loads w target p dirpath
                 = Inl (OSError path))
          \<and> (d \<noteq> [] \<and> last d \<noteq> CHR ''/'' \<and> (receipt_uuid = [] \<or> hd receipt_uuid \<noteq> CHR ''/'')
               \<longrightarrow> path = d @ ''/'' @ receipt_uuid @ ''.json'')"
proof -
  have p': "p' = set_status p result"
    by (rule validateProof_Inr [OF valid])
  have joined: "d \<noteq> [] \<and> last d \<noteq> CHR ''/''
                  \<and> (uuid1 w (uuids_minted w) = [] \<or> hd (uuid1 w (uuids_minted w)) \<noteq> CHR ''/'')
                \<longrightarrow> path_join d (uuid1 w (uuids_minted w) @ ''.json'')
                      = d @ ''/'' @ uuid1 w (uuids_minted w) @ ''.json''"
    by (cases "uuid1 w (uuids_minted w)") (auto simp: path_join_def)
  have no_dir: "validationReceipt machine_init multi_hash json_dumps json_loads w target p dirpath
                 = Inr (\<lparr>receipt_header = [''uuid'' \<mapsto> VStr (uuid1 w (uuids_minted w)),
                                          ''timestamp'' \<mapsto> VInt (time_now w),
                                          ''validation_moment'' \<mapsto> VStr (ctime_now w)],
                        receipt_body = [''proof_uuid'' \<mapsto> VStr (uuid (header p)),
                                        ''proof_provider'' \<mapsto> VStr (provider (header p)),
                                        ''result'' \<mapsto> VBool result]\<rparr>,
                        p', w\<lparr>uuids_minted := Suc (uuids_minted w)\<rparr>)"
    if "dirpath = None \<or> dirpath = Some []"
    using that valid
    by (auto simp: validationReceipt_def Receipt_init_keywords p' set_status_fields)
  have with_dir: "validationReceipt machine_init multi_hash json_dumps json_loads w target p
                    dirpath
                  = (if open_fails w (path_join d (uuid1 w (uuids_minted w) @ ''.json''))
                     then Inl (OSError (path_join d (uuid1 w (uuids_minted w) @ ''.json'')))
                     else Inr (\<lparr>receipt_header = [''uuid'' \<mapsto> VStr (uuid1 w (uuids_minted w)),
                                          ''timestamp'' \<mapsto> VInt (time_now w),
                                          ''validation_moment'' \<mapsto> VStr (ctime_now w)],
                        receipt_body = [''proof_uuid'' \<mapsto> VStr (uuid (header p)),
                                        ''proof_provider'' \<mapsto> VStr (provider (header p)),
                                        ''result'' \<mapsto> VBool result]\<rparr>,
                        p',
                        w\<lparr>uuids_minted := Suc (uuids_minted w),
                          files := (files w)(path_join d (uuid1 w (uuids_minted w) @ ''.json'')
                            \<mapsto> json_dumps True 4 (serialize
                               \<lparr>receipt_header = [''uuid'' \<mapsto> VStr (uuid1 w (uuids_minted w)),
                                          ''timestamp'' \<mapsto> VInt (time_now w),
                                          ''validation_moment'' \<mapsto> VStr (ctime_now w)],
                        receipt_body = [''proof_uuid'' \<mapsto> VStr (uuid (header p)),
                                        ''proof_provider'' \<mapsto> VStr (provider (header p)),
                                        ''result'' \<mapsto> VBool result]\<rparr>))\<rparr>))"
    if "dirpath = Some d" and "d \<noteq> []"
    using that valid
    by (simp add: validationReceipt_def Receipt_init_keywords p' set_status_fields
          getitem_def py_str_def Let_def)
  from joined no_dir with_dir show ?thesis
    by (simp add: Let_def)
qed

lemma example_path:
  "path_join ''receipts'' (''receipt-0'' @ ''.json'') = ''receipts/receipt-0.json''"
  by (simp add: path_join_def)

theorem validationReceipt_result_witness:
  "validationReceipt example_machine_init example_multi_hash example_json_dumps
     example_json_loads example_world [0x61] example_proof None
     = Inr (example_receipt,
            example_proof\<lparr>header := (header example_proof)\<lparr>status := Some True\<rparr>\<rparr>,
            example_world\<lparr>uuids_minted := Suc 0\<rparr>)
   \<and> validationReceipt example_machine_init example_multi_hash example_json_dumps
       example_json_loads example_world [0x61] example_proof (Some ''receipts'')
     = Inr (example_receipt,
            example_proof\<lparr>header := (header example_proof)\<lparr>status := Some True\<rparr>\<rparr>,
            example_world\<lparr>uuids_minted := Suc 0,
              files := [''receipts/receipt-0.json'' \<mapsto> example_json_text]\<rparr>)
   \<and> validationReceipt example_machine_init example_multi_hash example_json_dumps
       example_json_loads example_world [0x61] example_proof (Some [])
     = Inr (example_receipt,
            example_proof\<lparr>header := (header example_proof)\<lparr>status := Some True\<rparr>\<rparr>,
            example_world\<lparr>uuids_minted := Suc 0\<rparr>)
   \<and> validationReceipt example_machine_init example_multi_hash example_json_dumps
       example_json_loads example_closed_world [0x61] example_proof (Some ''receipts'')
     = Inl (OSError ''receipts/receipt-0.json'')"
proof -
  note none = validationReceipt_result [OF validateProof_example,
                where w = example_world and dirpath = None and json_dumps = example_json_dumps
                  and json_loads = example_json_loads and d = "''receipts''"]
  note some = validationReceipt_result [OF validateProof_example,
                where w = example_world and dirpath = "Some ''receipts''"
                  and json_dumps = example_json_dumps
                  and json_loads = example_json_loads and d = "''receipts''"]
  have receipt: "\<lparr>receipt_header = [''uuid'' \<mapsto> VStr ''receipt-0'',
                                     ''timestamp'' \<mapsto> VInt 1600000000,
                                     ''validation_moment'' \<mapsto> VStr ''Sun Sep 13 12:26:40 2020''],
                   receipt_body = [''proof_uuid'' \<mapsto> VStr ''proof-1'',
                                   ''proof_provider'' \<mapsto> VStr ''tree-1'',
                                   ''result'' \<mapsto> VBool True]\<rparr> = example_receipt"
    by (simp add: example_receipt_def)
  have first: "validationReceipt example_machine_init example_multi_hash example_json_dumps
     example_json_loads example_world [0x61] example_proof None
     = Inr (example_receipt,
            example_proof\<lparr>header := (header example_proof)\<lparr>status := Some True\<rparr>\<rparr>,
            example_world\<lparr>uuids_minted := Suc 0\<rparr>)"
    using none
    by (simp add: Let_def example_world_fields example_proof_fields receipt)
       (simp add: example_world_def)
  have second: "validationReceipt example_machine_init example_multi_hash example_json_dumps
       example_json_loads example_world [0x61] example_proof (Some ''receipts'')
     = Inr (example_receipt,
            example_proof\<lparr>header := (header example_proof)\<lparr>status := Some True\<rparr>\<rparr>,
            example_world\<lparr>uuids_minted := Suc 0,
              files := [''receipts/receipt-0.json'' \<mapsto> example_json_text]\<rparr>)"
    using some
    by (simp add: Let_def example_world_fields example_proof_fields receipt example_path
          example_json_dumps_def)
       (simp add: example_world_def)
  note empty = validationReceipt_result [OF validateProof_example,
                 where w = example_world and dirpath = "Some []"
                   and json_dumps = example_json_dumps
                   and json_loads = example_json_loads and d = "''receipts''"]
  note closed = validationReceipt_result [OF validateProof_example,
                  where w = example_closed_world and dirpath = "Some ''receipts''"
                    and json_dumps = example_json_dumps
                    and json_loads = example_json_loads and d = "''receipts''"]
  have third: "validationReceipt example_machine_init example_multi_hash example_json_dumps
       example_json_loads example_world [0x61] example_proof (Some [])
     = Inr (example_receipt,
            example_proof\<lparr>header := (header example_proof)\<lparr>status := Some True\<rparr>\<rparr>,
            example_world\<lparr>uuids_minted := Suc 0\<rparr>)"
    using empty
    by (simp add: Let_def example_world_fields example_proof_fields receipt)
       (simp add: example_world_def)
  have fourth: "validationReceipt example_machine_init example_multi_hash example_json_dumps
       example_json_loads example_closed_world [0x61] example_proof (Some ''receipts'')
     = Inl (OSError ''receipts/receipt-0.json'')"
    using closed
    by (simp add: Let_def example_closed_world_fields example_path)
  from first second third fourth show ?thesis
    by blast
qed

end
